theory Spec2Isabelle
  imports
    Complex_Main
    "HOL-Library.Sublist"
    "HOL-Library.Char_ord"
    "HOL-Library.List_Lexorder"
    "HOL-Library.Product_Lexorder"
begin

section \<open>csv-analyst: the tool functions of \<open>main.py\<close>\<close>

text \<open>
  The server keeps one module-level \<open>STATE\<close> object and exposes ten tools that read and
  update it. Each tool is embedded as a function from the state before the call to the
  outcome of the call and the state after it. What the tools ask of pathlib, the operating
  system, the regular-expression engine and the numeric parts of pandas is a parameter
  (the record \<open>env\<close>); the control flow of \<open>main.py\<close>, and the pandas rules the tools'
  behaviour hinges on (which comparisons raise, when \<open>describe\<close> raises, how \<open>groupby\<close>
  forms its groups), are written out.
\<close>

subsection \<open>Exceptions\<close>

text \<open>
  A Python exception is its class and its message. \<open>OSError\<close> stands for the operating
  system's errors that have no constructor of their own.
\<close>

datatype exc =
    RuntimeError string
  | ValueError string
  | TypeError string
  | KeyError string
  | FileNotFoundError string
  | PermissionError string
  | OSError string
  | OtherError string

subsection \<open>Paths (pathlib, POSIX flavour)\<close>

text \<open>
  A \<open>Path\<close> is whether it has a root and its components. \<open>Path(s)\<close> splits \<open>s\<close> at
  slashes and drops empty components and single dots; \<open>str\<close> joins them again.
\<close>

datatype path = Path (is_absolute: bool) (parts: "string list")

fun split_on :: "char \<Rightarrow> string \<Rightarrow> string list" where
  "split_on c [] = [[]]"
| "split_on c (x # xs) =
     (if x = c then [] # split_on c xs
      else (case split_on c xs of [] \<Rightarrow> [[x]] | y # ys \<Rightarrow> (x # y) # ys))"

definition parse_path :: "string \<Rightarrow> path" where
  "parse_path s =
     Path (prefix ''/'' s) (filter (\<lambda>c. c \<noteq> [] \<and> c \<noteq> ''.'') (split_on CHR ''/'' s))"

definition join_parts :: "string list \<Rightarrow> string" where
  "join_parts ps = concat (map (\<lambda>c. CHR ''/'' # c) ps)"

definition str_path :: "path \<Rightarrow> string" where
  "str_path p =
     (if is_absolute p then (if parts p = [] then ''/'' else join_parts (parts p))
      else (if parts p = [] then ''.'' else tl (join_parts (parts p))))"

definition joinpath :: "path \<Rightarrow> path \<Rightarrow> path" where
  "joinpath a b = (if is_absolute b then b else Path (is_absolute a) (parts a @ parts b))"

text \<open>\<open>p.relative_to(base)\<close> succeeds exactly when \<open>base\<close> is \<open>p\<close> or one of its parents.\<close>

definition is_relative_to :: "path \<Rightarrow> path \<Rightarrow> bool" where
  "is_relative_to p base \<longleftrightarrow> is_absolute p = is_absolute base \<and> prefix (parts base) (parts p)"

text \<open>\<open>str.lower\<close> on the ASCII letters.\<close>

definition lower_char :: "char \<Rightarrow> char" where
  "lower_char c =
     (let n = (of_char c :: nat) in if 65 \<le> n \<and> n \<le> 90 then char_of (n + 32) else c)"

definition lower :: "string \<Rightarrow> string" where
  "lower s = map lower_char s"

definition endswith :: "string \<Rightarrow> string \<Rightarrow> bool" where
  "endswith s suf = suffix suf s"

definition startswith :: "string \<Rightarrow> string \<Rightarrow> bool" where
  "startswith s pre = prefix pre s"

subsection \<open>Tables\<close>

text \<open>
  A cell is a scalar of a column: a missing value (\<open>NaN\<close>, \<open>None\<close>, \<open>pd.NA\<close>), a
  boolean, an integer, a finite float (its exact rational value) or a string. A table is
  its column labels and its rows; a DataFrame read from a file also has one dtype per
  column. Column labels are unique (\<open>read_csv\<close> renames duplicates), and every row has one
  cell per column.
\<close>

datatype cell = CNull | CBool bool | CInt int | CFloat rat | CStr string

datatype dtype = Int64 | Float64 | Bool | Object

record table =
  columns :: "string list"
  rows :: "cell list list"

record dataframe = table +
  dtypes :: "dtype list"

definition table_of :: "dataframe \<Rightarrow> table" where
  "table_of d = \<lparr>columns = columns d, rows = rows d\<rparr>"

definition dtype_name :: "dtype \<Rightarrow> string" where
  "dtype_name t =
     (case t of Int64 \<Rightarrow> ''int64'' | Float64 \<Rightarrow> ''float64'' | Bool \<Rightarrow> ''bool''
      | Object \<Rightarrow> ''object'')"

definition col_value :: "string list \<Rightarrow> cell list \<Rightarrow> string \<Rightarrow> cell" where
  "col_value cols r c = (case map_of (zip cols r) c of Some v \<Rightarrow> v | None \<Rightarrow> CNull)"

text \<open>\<open>df[c]\<close>: the cells of column \<open>c\<close>, one per row.\<close>

definition series :: "'a table_scheme \<Rightarrow> string \<Rightarrow> cell list" where
  "series t c = map (\<lambda>r. col_value (columns t) r c) (rows t)"

definition dtype_of :: "dataframe \<Rightarrow> string \<Rightarrow> dtype" where
  "dtype_of d c = (case map_of (zip (columns d) (dtypes d)) c of Some t \<Rightarrow> t | None \<Rightarrow> Object)"

text \<open>\<open>head(n)\<close>: the first \<open>n\<close> entries; for negative \<open>n\<close>, all but the last \<open>-n\<close>.\<close>

definition head :: "int \<Rightarrow> 'a list \<Rightarrow> 'a list" where
  "head n xs = (if n < 0 then take (length xs - nat (- n)) xs else take (nat n) xs)"

text \<open>\<open>to_dict(orient="records")\<close>: one dictionary per row, from column label to cell.\<close>

definition to_dict_records :: "string list \<Rightarrow> cell list list \<Rightarrow> (string \<times> cell) list list" where
  "to_dict_records cols rs = map (zip cols) rs"

text \<open>\<open>df[mask]\<close> keeps the rows whose mask entry is true; \<open>df[cols]\<close> keeps the named columns.\<close>

definition select_mask :: "cell list list \<Rightarrow> bool list \<Rightarrow> cell list list" where
  "select_mask rs m = map fst (filter snd (zip rs m))"

definition select_columns :: "'a table_scheme \<Rightarrow> string list \<Rightarrow> table" where
  "select_columns t cs =
     \<lparr>columns = cs, rows = map (\<lambda>r. map (col_value (columns t) r) cs) (rows t)\<rparr>"

subsection \<open>Tool arguments\<close>

text \<open>
  The values of a filter or aggregation dictionary are arbitrary JSON values; the
  dictionary itself is a map from keys to values, and \<open>d.get(k)\<close> is \<open>None\<close> for a
  missing key.
\<close>

datatype jvalue =
    JNull
  | JBool bool
  | JInt int
  | JFloat rat
  | JStr string
  | JList "jvalue list"
  | JObject "(string \<times> jvalue) list"

type_synonym jdict = "string \<rightharpoonup> jvalue"

definition get_default :: "jdict \<Rightarrow> string \<Rightarrow> jvalue \<Rightarrow> jvalue" where
  "get_default f k dflt = (case f k of None \<Rightarrow> dflt | Some v \<Rightarrow> v)"

definition get :: "jdict \<Rightarrow> string \<Rightarrow> jvalue" where
  "get f k = get_default f k JNull"

text \<open>Python's truth value of a JSON value (\<open>bool(v)\<close>, \<open>not v\<close>).\<close>

fun truthy :: "jvalue \<Rightarrow> bool" where
  "truthy JNull = False"
| "truthy (JBool b) = b"
| "truthy (JInt i) = (i \<noteq> 0)"
| "truthy (JFloat r) = (r \<noteq> 0)"
| "truthy (JStr s) = (s \<noteq> [])"
| "truthy (JList xs) = (xs \<noteq> [])"
| "truthy (JObject kvs) = (kvs \<noteq> [])"

text \<open>The \<open>{"ok": False, "error": ...}\<close> results, one constructor per \<open>return\<close> site.\<close>

datatype error =
    UnknownColumns "string list"
  | UnknownColumn string
  | BadLogic
  | UnknownFilterColumn jvalue
  | ComparisonFailed string string jvalue exc
  | InNeedsList
  | UnsupportedOp jvalue
  | UnknownGroupColumns "string list"
  | UnknownAggColumn jvalue
  | UnsupportedAgg jvalue
  | NoLastResult
  | AccessDeniedOutput path

text \<open>
  A tool ends in one of three ways: it returns a success dictionary (\<open>Ok\<close>), it returns
  an error dictionary (\<open>Err\<close>), or an exception leaves it (\<open>Raised\<close>). The last two are
  the failures.
\<close>

datatype 'a outcome = Ok 'a | Err error | Raised exc

fun is_failure :: "'a outcome \<Rightarrow> bool" where
  "is_failure (Ok _) = False"
| "is_failure (Err _) = True"
| "is_failure (Raised _) = True"

subsection \<open>The environment\<close>

text \<open>
  What the tools obtain from outside \<open>main.py\<close>:
  \<^item> \<open>env_homedir u\<close>: the home directory \<open>os.path.expanduser\<close> finds for \<open>~u\<close> (\<open>~\<close> when
    \<open>u\<close> is empty), if any;
  \<^item> \<open>env_realpath\<close>: \<open>Path.resolve()\<close>, the canonical absolute path (symbolic links and
    \<open>..\<close> resolved), or the exception it raises (\<open>RuntimeError\<close> on a loop of symbolic
    links, \<open>ValueError\<close> on a null byte in the path);
  \<^item> \<open>env_exists\<close>, \<open>env_is_file\<close>, \<open>env_is_dir\<close>: \<open>Path.exists()\<close>, \<open>is_file()\<close>,
    \<open>is_dir()\<close>. They answer \<open>False\<close> when \<open>stat\<close> finds no such file, and re-raise every
    other \<open>OSError\<close> of \<open>stat\<close> (a name that is too long, a directory that may not be
    searched);
  \<^item> \<open>env_read_csv path sep encoding\<close>: \<open>pd.read_csv\<close>, a DataFrame or the exception raised;
  \<^item> \<open>env_write_csv path t\<close>: \<open>path.parent.mkdir(parents=True, exist_ok=True)\<close> followed by
    \<open>t.to_csv(path, index=False)\<close>, the exception raised if any;
  \<^item> \<open>env_describe_stats\<close>: count, mean, std, min, 25%, 50%, 75%, max of a numeric column;
  \<^item> \<open>env_value_counts dtype cells dropna normalize\<close>: \<open>Series.value_counts\<close>;
  \<^item> \<open>env_re_compile\<close>: \<open>re.compile\<close>, the search predicate of a pattern or the exception;
  \<^item> \<open>env_isin dtype values\<close>: the membership test of \<open>Series.isin\<close>;
  \<^item> \<open>env_compare_nonscalar op dtype cells v\<close>: a comparison of a column with a list (of
    the column's length) or a dictionary, as a function of the row number;
  \<^item> \<open>env_agg_reject\<close>: the exception with which \<open>groupby(...).agg(...)\<close> rejects an
    aggregation specification, if it does;
  \<^item> \<open>env_reduce fn dtype cells\<close>: one aggregation function on the cells of one group;
  \<^item> \<open>env_float_str\<close>: \<open>str\<close> of a float; \<open>env_repr\<close>: \<open>str\<close> of a list or dictionary.
\<close>

record env =
  env_homedir :: "string \<Rightarrow> string option"
  env_realpath :: "path \<Rightarrow> exc + path"
  env_exists :: "path \<Rightarrow> exc + bool"
  env_is_file :: "path \<Rightarrow> exc + bool"
  env_is_dir :: "path \<Rightarrow> exc + bool"
  env_read_csv :: "path \<Rightarrow> string \<Rightarrow> string option \<Rightarrow> exc + dataframe"
  env_write_csv :: "path \<Rightarrow> table \<Rightarrow> exc option"
  env_describe_stats :: "dtype \<Rightarrow> cell list \<Rightarrow> cell list"
  env_value_counts :: "dtype \<Rightarrow> cell list \<Rightarrow> bool \<Rightarrow> bool \<Rightarrow> (cell \<times> cell) list"
  env_re_compile :: "string \<Rightarrow> exc + (string \<Rightarrow> bool)"
  env_isin :: "dtype \<Rightarrow> jvalue list \<Rightarrow> exc + (cell \<Rightarrow> bool)"
  env_compare_nonscalar :: "string \<Rightarrow> dtype \<Rightarrow> cell list \<Rightarrow> jvalue \<Rightarrow> exc + (nat \<Rightarrow> bool)"
  env_agg_reject :: "dataframe \<Rightarrow> string list \<Rightarrow> (string \<times> string list) list \<Rightarrow> exc option"
  env_reduce :: "string \<Rightarrow> dtype \<Rightarrow> cell list \<Rightarrow> exc + cell"
  env_float_str :: "rat \<Rightarrow> string"
  env_repr :: "jvalue \<Rightarrow> string"

subsection \<open>The process state\<close>

record state =
  csv_path :: "string option"
  df :: "dataframe option"
  last_result :: "table option"
  base_dir :: path

subsection \<open>Path resolution\<close>

text \<open>
  \<open>Path.expanduser\<close>: a relative path whose first component starts with \<open>~\<close> has that
  component replaced by the home directory; \<open>RuntimeError\<close> when there is none.
\<close>

definition expanduser :: "env \<Rightarrow> path \<Rightarrow> exc + path" where
  "expanduser env p =
     (case parts p of
        [] \<Rightarrow> Inr p
      | c # cs \<Rightarrow>
          if \<not> is_absolute p \<and> prefix ''~'' c then
            (case env_homedir env (tl c) of
               None \<Rightarrow> Inl (RuntimeError ''Could not determine home directory.'')
             | Some h \<Rightarrow> Inr (Path (is_absolute (parse_path h)) (parts (parse_path h) @ cs)))
          else Inr p)"

text \<open>
  The first five lines of \<open>_resolve_csv_path\<close>, which \<open>export_last_result\<close> repeats for
  its output path: expand the user, make a relative path relative to the base directory,
  and canonicalise.
\<close>

definition resolve_user_path :: "env \<Rightarrow> path \<Rightarrow> string \<Rightarrow> exc + path" where
  "resolve_user_path env base user_path =
     (case expanduser env (parse_path user_path) of
        Inl e \<Rightarrow> Inl e
      | Inr p \<Rightarrow>
          if \<not> is_absolute p then env_realpath env (joinpath base p)
          else env_realpath env p)"

text \<open>
  \<open>not p.exists() or not p.is_file()\<close>, and the same with \<open>is_dir\<close>: the second test is
  made only when the first one answers \<open>True\<close>, and an exception of either test leaves the
  condition.
\<close>

definition exists_and :: "(path \<Rightarrow> exc + bool) \<Rightarrow> env \<Rightarrow> path \<Rightarrow> exc + bool" where
  "exists_and test env p =
     (case env_exists env p of
        Inl e \<Rightarrow> Inl e
      | Inr found \<Rightarrow> if \<not> found then Inr False else test p)"

text \<open>\<open>_resolve_csv_path\<close>: the extension, then the file, then the base directory.\<close>

definition only_csv :: exc where
  "only_csv = ValueError ''Only .csv files are allowed.''"

definition csv_not_found :: "path \<Rightarrow> exc" where
  "csv_not_found p = FileNotFoundError (''CSV file not found: '' @ str_path p)"

definition access_denied :: "path \<Rightarrow> exc" where
  "access_denied base =
     PermissionError
       (''Access denied. File must be under base directory: '' @ str_path base
        @ ''. Set CSV_MCP_BASEDIR to change the allowed root.'')"

definition resolve_csv_path :: "env \<Rightarrow> state \<Rightarrow> string \<Rightarrow> exc + path" where
  "resolve_csv_path env st user_path =
     (case resolve_user_path env (base_dir st) user_path of
        Inl e \<Rightarrow> Inl e
      | Inr p \<Rightarrow>
          if \<not> endswith (lower (str_path p)) ''.csv'' then Inl only_csv
          else
            (case exists_and (env_is_file env) env p of
               Inl e \<Rightarrow> Inl e
             | Inr regular \<Rightarrow>
                 if \<not> regular then Inl (csv_not_found p)
                 else if \<not> is_relative_to p (base_dir st) then Inl (access_denied (base_dir st))
                 else Inr p))"

text \<open>\<open>_ensure_loaded\<close>, \<open>_df_to_rows\<close>, \<open>_basic_profile\<close>.\<close>

definition ensure_loaded :: "state \<Rightarrow> exc + dataframe" where
  "ensure_loaded st =
     (case df st of
        None \<Rightarrow> Inl (RuntimeError ''No CSV loaded. Call load_csv first.'')
      | Some d \<Rightarrow> Inr d)"

definition df_to_rows :: "'a table_scheme \<Rightarrow> int \<Rightarrow> (string \<times> cell) list list" where
  "df_to_rows t limit =
     (if limit \<le> 0 then [] else to_dict_records (columns t) (head limit (rows t)))"

record profile =
  row_count :: int
  column_count :: int
  profile_columns :: "string list"
  profile_dtypes :: "(string \<times> string) list"
  missing_by_column :: "(string \<times> int) list"

definition basic_profile :: "dataframe \<Rightarrow> profile" where
  "basic_profile d =
     \<lparr>row_count = int (length (rows d)),
      column_count = int (length (columns d)),
      profile_columns = columns d,
      profile_dtypes = map (\<lambda>c. (c, dtype_name (dtype_of d c))) (columns d),
      missing_by_column =
        map (\<lambda>c. (c, int (length (filter (\<lambda>v. v = CNull) (series d c))))) (columns d)\<rparr>"

subsection \<open>The tools that load and inspect\<close>

definition set_base_directory :: "env \<Rightarrow> string \<Rightarrow> state \<Rightarrow> string outcome \<times> state" where
  "set_base_directory env p st =
     (case expanduser env (parse_path p) of
        Inl e \<Rightarrow> (Raised e, st)
      | Inr q \<Rightarrow>
          (case env_realpath env q of
             Inl e \<Rightarrow> (Raised e, st)
           | Inr base \<Rightarrow>
               (case exists_and (env_is_dir env) env base of
                  Inl e \<Rightarrow> (Raised e, st)
                | Inr directory \<Rightarrow>
                    if \<not> directory then
                      (Raised (FileNotFoundError (''Directory not found: '' @ str_path base)), st)
                    else
                      let st1 = st\<lparr>base_dir := base\<rparr>
                      in (Ok (str_path (base_dir st1)), st1))))"

definition get_base_directory :: "state \<Rightarrow> string outcome \<times> state" where
  "get_base_directory st = (Ok (str_path (base_dir st)), st)"

record load_payload =
  lp_csv_path :: "string option"
  lp_profile :: profile
  lp_preview :: "(string \<times> cell) list list"

definition load_csv ::
  "env \<Rightarrow> string \<Rightarrow> string \<Rightarrow> string option \<Rightarrow> int \<Rightarrow> state \<Rightarrow> load_payload outcome \<times> state"
where
  "load_csv env p delimiter encoding sample_rows st =
     (case resolve_csv_path env st p of
        Inl e \<Rightarrow> (Raised e, st)
      | Inr cp \<Rightarrow>
          (case env_read_csv env cp delimiter (if encoding \<in> {None, Some []} then None else encoding) of
             Inl e \<Rightarrow> (Raised e, st)
           | Inr d \<Rightarrow>
               let st1 = st\<lparr>csv_path := Some (str_path cp)\<rparr>;
                   st2 = st1\<lparr>df := Some d\<rparr>;
                   st3 = st2\<lparr>last_result := None\<rparr>
               in (Ok \<lparr>lp_csv_path = csv_path st3,
                       lp_profile = basic_profile d,
                       lp_preview = df_to_rows d sample_rows\<rparr>, st3)))"

record schema_payload =
  sp_csv_path :: "string option"
  sp_profile :: profile

definition get_schema :: "state \<Rightarrow> schema_payload outcome \<times> state" where
  "get_schema st =
     (case ensure_loaded st of
        Inl e \<Rightarrow> (Raised e, st)
      | Inr d \<Rightarrow> (Ok \<lparr>sp_csv_path = csv_path st, sp_profile = basic_profile d\<rparr>, st))"

definition preview ::
  "int \<Rightarrow> string list option \<Rightarrow> state \<Rightarrow> (string \<times> cell) list list outcome \<times> state"
where
  "preview n cols st =
     (case ensure_loaded st of
        Inl e \<Rightarrow> (Raised e, st)
      | Inr d \<Rightarrow>
          (case (case cols of None \<Rightarrow> [] | Some cs \<Rightarrow> cs) of
             [] \<Rightarrow>
               let out = table_of d;
                   st1 = st\<lparr>last_result := Some out\<rparr>
               in (Ok (df_to_rows out n), st1)
           | c # cs \<Rightarrow>
               let missing = filter (\<lambda>x. x \<notin> set (columns d)) (c # cs) in
               if missing \<noteq> [] then (Err (UnknownColumns missing), st)
               else
                 let out = select_columns d (c # cs);
                     st1 = st\<lparr>last_result := Some out\<rparr>
                 in (Ok (df_to_rows out n), st1)))"

text \<open>
  \<open>df.describe(include="number")\<close>, transposed, with the column labels moved into a column
  named \<open>column\<close>. pandas refuses a frame without columns, and it raises from its final
  \<open>concat\<close> when \<open>select_dtypes\<close> leaves no column to describe.
\<close>

definition is_numeric :: "dtype \<Rightarrow> bool" where
  "is_numeric t \<longleftrightarrow> t = Int64 \<or> t = Float64"

definition numeric_columns :: "dataframe \<Rightarrow> string list" where
  "numeric_columns d = filter (\<lambda>c. is_numeric (dtype_of d c)) (columns d)"

definition stat_names :: "string list" where
  "stat_names = [''count'', ''mean'', ''std'', ''min'', ''25%'', ''50%'', ''75%'', ''max'']"

definition describe_number :: "env \<Rightarrow> dataframe \<Rightarrow> exc + table" where
  "describe_number env d =
     (if columns d = [] then Inl (ValueError ''Cannot describe a DataFrame without columns'')
      else if numeric_columns d = [] then Inl (ValueError ''No objects to concatenate'')
      else Inr \<lparr>columns = ''column'' # stat_names,
                rows = map (\<lambda>c. CStr c # env_describe_stats env (dtype_of d c) (series d c))
                         (numeric_columns d)\<rparr>)"

definition describe_numeric :: "env \<Rightarrow> state \<Rightarrow> (string \<times> cell) list list outcome \<times> state" where
  "describe_numeric env st =
     (case ensure_loaded st of
        Inl e \<Rightarrow> (Raised e, st)
      | Inr d \<Rightarrow>
          (case describe_number env d of
             Inl e \<Rightarrow> (Raised e, st)
           | Inr desc \<Rightarrow>
               let st1 = st\<lparr>last_result := Some desc\<rparr>
               in (Ok (to_dict_records (columns desc) (rows desc)), st1)))"

record counts_payload =
  cp_column :: string
  cp_results :: "(cell \<times> cell) list"

text \<open>\<open>pd.DataFrame(result)\<close> of a list of \<open>{value, metric}\<close> dictionaries.\<close>

definition frame_of_counts :: "(cell \<times> cell) list \<Rightarrow> table" where
  "frame_of_counts result =
     (if result = [] then \<lparr>columns = [], rows = []\<rparr>
      else \<lparr>columns = [''value'', ''metric''], rows = map (\<lambda>(v, m). [v, m]) result\<rparr>)"

definition value_counts ::
  "env \<Rightarrow> string \<Rightarrow> int \<Rightarrow> bool \<Rightarrow> bool \<Rightarrow> state \<Rightarrow> counts_payload outcome \<times> state"
where
  "value_counts env column limit normalized dropna st =
     (case ensure_loaded st of
        Inl e \<Rightarrow> (Raised e, st)
      | Inr d \<Rightarrow>
          if column \<notin> set (columns d) then (Err (UnknownColumn column), st)
          else
            let vc = head limit
                       (env_value_counts env (dtype_of d column) (series d column) dropna normalized);
                result = vc;
                st1 = st\<lparr>last_result := Some (frame_of_counts result)\<rparr>
            in (Ok \<lparr>cp_column = column, cp_results = result\<rparr>, st1))"

subsection \<open>Comparisons of a column with a value\<close>

text \<open>Decimal digits, \<open>str\<close> of an integer, and \<open>str\<close> of a JSON value.\<close>

function digits :: "nat \<Rightarrow> string" where
  "digits n = (if n < 10 then [char_of (48 + n)] else digits (n div 10) @ [char_of (48 + n mod 10)])"
  by pat_completeness auto
termination
  by (relation "measure id") auto

declare digits.simps [simp del]

definition show_int :: "int \<Rightarrow> string" where
  "show_int i = (if i < 0 then CHR ''-'' # digits (nat (- i)) else digits (nat i))"

definition show_bool :: "bool \<Rightarrow> string" where
  "show_bool b = (if b then ''True'' else ''False'')"

definition py_str :: "env \<Rightarrow> jvalue \<Rightarrow> string" where
  "py_str env v =
     (case v of
        JNull \<Rightarrow> ''None''
      | JBool b \<Rightarrow> show_bool b
      | JInt i \<Rightarrow> show_int i
      | JFloat r \<Rightarrow> env_float_str env r
      | JStr s \<Rightarrow> s
      | JList xs \<Rightarrow> env_repr env v
      | JObject kvs \<Rightarrow> env_repr env v)"

text \<open>The six comparison operators, on any linear order.\<close>

definition cmp_holds :: "string \<Rightarrow> 'a::linorder \<Rightarrow> 'a \<Rightarrow> bool" where
  "cmp_holds op a b =
     (if op = ''=='' then a = b
      else if op = ''!='' then a \<noteq> b
      else if op = ''>'' then a > b
      else if op = ''>='' then a \<ge> b
      else if op = ''<'' then a < b
      else a \<le> b)"

fun cell_number :: "cell \<Rightarrow> rat option" where
  "cell_number (CBool b) = Some (if b then 1 else 0)"
| "cell_number (CInt i) = Some (of_int i)"
| "cell_number (CFloat r) = Some r"
| "cell_number CNull = None"
| "cell_number (CStr s) = None"

fun value_number :: "jvalue \<Rightarrow> rat option" where
  "value_number (JBool b) = Some (if b then 1 else 0)"
| "value_number (JInt i) = Some (of_int i)"
| "value_number (JFloat r) = Some r"
| "value_number v = None"

fun cell_type :: "cell \<Rightarrow> string" where
  "cell_type CNull = ''float''"
| "cell_type (CBool b) = ''bool''"
| "cell_type (CInt i) = ''int''"
| "cell_type (CFloat r) = ''float''"
| "cell_type (CStr s) = ''str''"

fun value_type :: "jvalue \<Rightarrow> string" where
  "value_type JNull = ''NoneType''"
| "value_type (JBool b) = ''bool''"
| "value_type (JInt i) = ''int''"
| "value_type (JFloat r) = ''float''"
| "value_type (JStr s) = ''str''"
| "value_type (JList xs) = ''list''"
| "value_type (JObject kvs) = ''dict''"

text \<open>
  Python's comparison of two scalars: numbers (booleans among them) compare by value,
  strings by code point; anything else is unequal, and ordering it raises \<open>TypeError\<close>.
\<close>

definition py_compare :: "string \<Rightarrow> cell \<Rightarrow> jvalue \<Rightarrow> exc + bool" where
  "py_compare op c v =
     (case (cell_number c, value_number v) of
        (Some a, Some b) \<Rightarrow> Inr (cmp_holds op a b)
      | _ \<Rightarrow>
          (case (c, v) of
             (CStr s, JStr t) \<Rightarrow> Inr (cmp_holds op s t)
           | _ \<Rightarrow>
               if op = ''=='' then Inr False
               else if op = ''!='' then Inr True
               else Inl (TypeError (op @ '' not supported between instances of ''
                                    @ cell_type c @ '' and '' @ value_type v))))"

text \<open>A list of results is the list of values, or the first exception.\<close>

fun sequence :: "(exc + 'a) list \<Rightarrow> exc + 'a list" where
  "sequence [] = Inr []"
| "sequence (x # xs) =
     (case x of
        Inl e \<Rightarrow> Inl e
      | Inr v \<Rightarrow> (case sequence xs of Inl e \<Rightarrow> Inl e | Inr vs \<Rightarrow> Inr (v # vs)))"

text \<open>
  pandas' \<open>comparison_op\<close> for a scalar on the right:
  \<^item> against \<open>None\<close>, \<open>!=\<close> holds in every row and the other operators in none;
  \<^item> a numeric or boolean column against a string is an invalid comparison: \<open>==\<close> holds
    nowhere, \<open>!=\<close> everywhere, the ordering operators raise \<open>TypeError\<close>;
  \<^item> otherwise the cells are compared one by one; a missing cell satisfies only \<open>!=\<close>.
\<close>

definition invalid_comparison :: "string \<Rightarrow> dtype \<Rightarrow> cell list \<Rightarrow> exc + bool list" where
  "invalid_comparison op dt cells =
     (if op = ''=='' then Inr (map (\<lambda>_. False) cells)
      else if op = ''!='' then Inr (map (\<lambda>_. True) cells)
      else Inl (TypeError (''Invalid comparison between dtype='' @ dtype_name dt @ '' and str'')))"

definition scalar_compare :: "string \<Rightarrow> cell list \<Rightarrow> jvalue \<Rightarrow> exc + bool list" where
  "scalar_compare op cells v =
     sequence (map (\<lambda>c. if c = CNull then Inr (op = ''!='') else py_compare op c v) cells)"

definition comparison_op :: "string \<Rightarrow> dtype \<Rightarrow> cell list \<Rightarrow> jvalue \<Rightarrow> exc + bool list" where
  "comparison_op op dt cells v =
     (if v = JNull then Inr (map (\<lambda>_. op = ''!='') cells)
      else if dt \<noteq> Object \<and> value_type v = ''str'' then invalid_comparison op dt cells
      else scalar_compare op cells v)"

text \<open>
  \<open>Series.eq\<close>, \<open>ne\<close>, \<open>gt\<close>, \<open>ge\<close>, \<open>lt\<close>, \<open>le\<close>: a list on the right must have the
  column's length (\<open>ValueError\<close> otherwise) and is compared row by row; a scalar goes to
  \<open>comparison_op\<close>.
\<close>

definition series_compare ::
  "env \<Rightarrow> string \<Rightarrow> dtype \<Rightarrow> cell list \<Rightarrow> jvalue \<Rightarrow> exc + bool list"
where
  "series_compare env op dt cells v =
     (case v of
        JList xs \<Rightarrow>
          if length xs \<noteq> length cells then Inl (ValueError ''Lengths must be equal'')
          else (case env_compare_nonscalar env op dt cells v of
                  Inl e \<Rightarrow> Inl e
                | Inr f \<Rightarrow> Inr (map f [0..<length cells]))
      | JObject kvs \<Rightarrow>
          (case env_compare_nonscalar env op dt cells v of
             Inl e \<Rightarrow> Inl e
           | Inr f \<Rightarrow> Inr (map f [0..<length cells]))
      | _ \<Rightarrow> comparison_op op dt cells v)"

subsection \<open>String operators\<close>

text \<open>\<open>astype("string")\<close>: the text of a cell, a missing cell stays missing.\<close>

definition astype_string :: "env \<Rightarrow> cell \<Rightarrow> string option" where
  "astype_string env c =
     (case c of
        CNull \<Rightarrow> None
      | CBool b \<Rightarrow> Some (show_bool b)
      | CInt i \<Rightarrow> Some (show_int i)
      | CFloat r \<Rightarrow> Some (env_float_str env r)
      | CStr s \<Rightarrow> Some s)"

text \<open>
  The \<open>.str\<close> methods with \<open>na=False\<close>: a missing entry gives \<open>False\<close>. \<open>str.contains\<close>
  compiles its pattern as a regular expression first.
\<close>

definition str_test :: "(string \<Rightarrow> bool) \<Rightarrow> string option list \<Rightarrow> bool list" where
  "str_test f s = map (\<lambda>x. case x of None \<Rightarrow> False | Some t \<Rightarrow> f t) s"

definition str_contains :: "env \<Rightarrow> string option list \<Rightarrow> string \<Rightarrow> exc + bool list" where
  "str_contains env s pat =
     (case env_re_compile env pat of Inl e \<Rightarrow> Inl e | Inr f \<Rightarrow> Inr (str_test f s))"

definition str_startswith :: "string option list \<Rightarrow> string \<Rightarrow> bool list" where
  "str_startswith s pat = str_test (\<lambda>t. startswith t pat) s"

definition str_endswith :: "string option list \<Rightarrow> string \<Rightarrow> bool list" where
  "str_endswith s pat = str_test (\<lambda>t. endswith t pat) s"

definition str_lower :: "string option list \<Rightarrow> string option list" where
  "str_lower s = map (map_option lower) s"

text \<open>The branch of \<open>filter_rows\<close> for \<open>contains\<close>, \<open>startswith\<close> and \<open>endswith\<close>.\<close>

definition string_filter ::
  "env \<Rightarrow> string \<Rightarrow> bool \<Rightarrow> cell list \<Rightarrow> jvalue \<Rightarrow> exc + bool list"
where
  "string_filter env op case_sensitive cells v =
     (let s0 = map (astype_string env) cells;
          needle0 = py_str env v;
          s = (if \<not> case_sensitive then str_lower s0 else s0);
          needle = (if \<not> case_sensitive then lower needle0 else needle0)
      in if op = ''contains'' then str_contains env s needle
         else if op = ''startswith'' then Inr (str_startswith s needle)
         else Inr (str_endswith s needle))"

subsection \<open>\<open>filter_rows\<close>\<close>

text \<open>
  \<open>not col or col not in df.columns\<close>: a falsy value and a value that is no column label
  are unknown columns; a non-empty list or dictionary cannot be hashed, and the membership
  test raises \<open>TypeError\<close>.
\<close>

datatype column_check = ColumnFound string | ColumnMissing | ColumnUnhashable

definition lookup_column :: "'a table_scheme \<Rightarrow> jvalue \<Rightarrow> column_check" where
  "lookup_column t col =
     (if \<not> truthy col then ColumnMissing
      else (case col of
              JStr c \<Rightarrow> if c \<in> set (columns t) then ColumnFound c else ColumnMissing
            | JList xs \<Rightarrow> ColumnUnhashable
            | JObject kvs \<Rightarrow> ColumnUnhashable
            | _ \<Rightarrow> ColumnMissing))"

definition unhashable :: "jvalue \<Rightarrow> exc" where
  "unhashable v = TypeError (''unhashable type: '' @ value_type v)"

definition comparison_ops :: "string list" where
  "comparison_ops = [''=='', ''!='', ''>'', ''>='', ''<'', ''<='']"

definition string_ops :: "string list" where
  "string_ops = [''contains'', ''startswith'', ''endswith'']"

text \<open>The body of the loop over \<open>filters\<close>: the mask \<open>m\<close> of one filter, or the failure.\<close>

definition filter_mask :: "env \<Rightarrow> dataframe \<Rightarrow> jdict \<Rightarrow> bool list outcome" where
  "filter_mask env d f =
     (let col = get f ''column'';
          op = get f ''op'';
          val = get f ''value'';
          case_sensitive = truthy (get_default f ''case_sensitive'' (JBool False))
      in case lookup_column d col of
           ColumnMissing \<Rightarrow> Err (UnknownFilterColumn col)
         | ColumnUnhashable \<Rightarrow> Raised (unhashable col)
         | ColumnFound c \<Rightarrow>
             (case op of
                JStr opname \<Rightarrow>
                  if opname \<in> set comparison_ops then
                    (case series_compare env opname (dtype_of d c) (series d c) val of
                       Inl e \<Rightarrow> Err (ComparisonFailed c opname val e)
                     | Inr m \<Rightarrow> Ok m)
                  else if opname \<in> set string_ops then
                    (case string_filter env opname case_sensitive (series d c) val of
                       Inl e \<Rightarrow> Raised e
                     | Inr m \<Rightarrow> Ok m)
                  else if opname = ''in'' then
                    (case val of
                       JList xs \<Rightarrow>
                         (case env_isin env (dtype_of d c) xs of
                            Inl e \<Rightarrow> Raised e
                          | Inr g \<Rightarrow> Ok (map g (series d c)))
                     | _ \<Rightarrow> Err InNeedsList)
                  else Err (UnsupportedOp op)
              | _ \<Rightarrow> Err (UnsupportedOp op)))"

text \<open>\<open>mask & m\<close> and \<open>mask | m\<close>, row by row.\<close>

definition combine :: "string \<Rightarrow> bool list \<Rightarrow> bool list \<Rightarrow> bool list" where
  "combine logic msk m =
     (if logic = ''and'' then map2 (\<and>) msk m else map2 (\<or>) msk m)"

text \<open>The loop: \<open>mask\<close> starts as \<open>None\<close>; the first failure ends the call.\<close>

fun filter_loop ::
  "env \<Rightarrow> dataframe \<Rightarrow> string \<Rightarrow> jdict list \<Rightarrow> bool list option \<Rightarrow> bool list option outcome"
where
  "filter_loop env d logic [] msk = Ok msk"
| "filter_loop env d logic (f # fs) msk =
     (case filter_mask env d f of
        Err e \<Rightarrow> Err e
      | Raised x \<Rightarrow> Raised x
      | Ok m \<Rightarrow>
          filter_loop env d logic fs
            (case msk of None \<Rightarrow> Some m | Some mk \<Rightarrow> Some (combine logic mk m)))"

record rows_payload =
  rp_row_count :: int
  rp_rows :: "(string \<times> cell) list list"

definition apply_mask :: "dataframe \<Rightarrow> bool list option \<Rightarrow> dataframe" where
  "apply_mask d msk =
     (case msk of None \<Rightarrow> d | Some m \<Rightarrow> d\<lparr>rows := select_mask (rows d) m\<rparr>)"

definition filter_rows ::
  "env \<Rightarrow> jdict list \<Rightarrow> string \<Rightarrow> int \<Rightarrow> state \<Rightarrow> rows_payload outcome \<times> state"
where
  "filter_rows env filters logic limit st =
     (case ensure_loaded st of
        Inl e \<Rightarrow> (Raised e, st)
      | Inr d \<Rightarrow>
          if logic \<notin> set [''and'', ''or''] then (Err BadLogic, st)
          else
            (case filter_loop env d logic filters None of
               Err e \<Rightarrow> (Err e, st)
             | Raised x \<Rightarrow> (Raised x, st)
             | Ok msk \<Rightarrow>
                 let out = apply_mask d msk;
                     st1 = st\<lparr>last_result := Some (table_of out)\<rparr>
                 in (Ok \<lparr>rp_row_count = int (length (rows out)),
                         rp_rows = df_to_rows out limit\<rparr>, st1)))"

subsection \<open>\<open>groupby_aggregate\<close>\<close>

definition agg_functions :: "string list" where
  "agg_functions = [''sum'', ''mean'', ''min'', ''max'', ''count'', ''nunique'']"

text \<open>\<open>agg_map.setdefault(col, []).append(fn)\<close> on a dictionary that keeps insertion order.\<close>

definition setdefault_append ::
  "(string \<times> string list) list \<Rightarrow> string \<Rightarrow> string \<Rightarrow> (string \<times> string list) list"
where
  "setdefault_append agg_map col fn =
     (if col \<in> set (map fst agg_map)
      then map (\<lambda>(c, fns). if c = col then (c, fns @ [fn]) else (c, fns)) agg_map
      else agg_map @ [(col, [fn])])"

fun agg_loop ::
  "dataframe \<Rightarrow> jdict list \<Rightarrow> (string \<times> string list) list \<Rightarrow> (string \<times> string list) list outcome"
where
  "agg_loop d [] agg_map = Ok agg_map"
| "agg_loop d (a # rest) agg_map =
     (let col = get a ''column'';
          fn = get a ''agg''
      in case lookup_column d col of
           ColumnMissing \<Rightarrow> Err (UnknownAggColumn col)
         | ColumnUnhashable \<Rightarrow> Raised (unhashable col)
         | ColumnFound c \<Rightarrow>
             (case fn of
                JStr g \<Rightarrow>
                  if g \<notin> set agg_functions then Err (UnsupportedAgg fn)
                  else agg_loop d rest (setdefault_append agg_map c g)
              | _ \<Rightarrow> Err (UnsupportedAgg fn)))"

text \<open>
  \<open>df.groupby(group_columns, dropna=False).agg(agg_map)\<close>. The key of a row is its cells
  in the group columns. With \<open>dropna=False\<close> a missing cell is a key value like any other.
  The groups are the distinct keys, sorted (numbers before strings, missing values last);
  the result has one column per pair of an aggregated column and a function, in the order
  of \<open>agg_map\<close>. pandas raises \<open>ValueError\<close> without group keys.
\<close>

definition row_key :: "'a table_scheme \<Rightarrow> string list \<Rightarrow> cell list \<Rightarrow> cell list" where
  "row_key t group_columns r = map (col_value (columns t) r) group_columns"

fun sort_rank :: "cell \<Rightarrow> nat \<times> rat \<times> string" where
  "sort_rank CNull = (2, 0, [])"
| "sort_rank (CStr s) = (1, 0, s)"
| "sort_rank (CBool b) = (0, (if b then 1 else 0), [])"
| "sort_rank (CInt i) = (0, of_int i, [])"
| "sort_rank (CFloat r) = (0, r, [])"

definition group_keys :: "'a table_scheme \<Rightarrow> string list \<Rightarrow> cell list list" where
  "group_keys t group_columns =
     sort_key (map sort_rank) (remdups (map (row_key t group_columns) (rows t)))"

definition group_rows :: "'a table_scheme \<Rightarrow> string list \<Rightarrow> cell list \<Rightarrow> cell list list" where
  "group_rows t group_columns k = filter (\<lambda>r. row_key t group_columns r = k) (rows t)"

definition agg_pairs :: "(string \<times> string list) list \<Rightarrow> (string \<times> string) list" where
  "agg_pairs agg_map = concat (map (\<lambda>(c, fns). map (\<lambda>fn. (c, fn)) fns) agg_map)"

record grouped =
  index_names :: "string list"
  index_keys :: "cell list list"
  value_columns :: "(string \<times> string) list"
  value_rows :: "cell list list"

definition groupby_agg ::
  "env \<Rightarrow> dataframe \<Rightarrow> string list \<Rightarrow> (string \<times> string list) list \<Rightarrow> exc + grouped"
where
  "groupby_agg env d group_columns agg_map =
     (if group_columns = [] then Inl (ValueError ''No group keys passed!'')
      else
        (case env_agg_reject env d group_columns agg_map of
           Some e \<Rightarrow> Inl e
         | None \<Rightarrow>
             let keys = group_keys d group_columns in
             (case sequence
                     (map (\<lambda>k.
                        sequence
                          (map (\<lambda>(c, fn).
                             env_reduce env fn (dtype_of d c)
                               (map (\<lambda>r. col_value (columns d) r c) (group_rows d group_columns k)))
                            (agg_pairs agg_map)))
                        keys) of
                Inl e \<Rightarrow> Inl e
              | Inr vals \<Rightarrow>
                  Inr \<lparr>index_names = group_columns, index_keys = keys,
                       value_columns = agg_pairs agg_map, value_rows = vals\<rparr>)))"

text \<open>
  \<open>reset_index\<close> moves the index levels into leading columns; it raises \<open>ValueError\<close> when
  a level's name is already a column label.
\<close>

definition reset_index :: "string list \<Rightarrow> cell list list \<Rightarrow> table \<Rightarrow> exc + table" where
  "reset_index names keys t =
     (if \<not> distinct names \<or> set names \<inter> set (columns t) \<noteq> {}
      then Inl (ValueError ''cannot insert a level, already exists'')
      else Inr \<lparr>columns = names @ columns t, rows = map2 (@) keys (rows t)\<rparr>)"

definition groupby_aggregate ::
  "env \<Rightarrow> string list \<Rightarrow> jdict list \<Rightarrow> int \<Rightarrow> state \<Rightarrow> rows_payload outcome \<times> state"
where
  "groupby_aggregate env group_columns aggregations limit st =
     (case ensure_loaded st of
        Inl e \<Rightarrow> (Raised e, st)
      | Inr d \<Rightarrow>
          let missing = filter (\<lambda>c. c \<notin> set (columns d)) group_columns in
          if missing \<noteq> [] then (Err (UnknownGroupColumns missing), st)
          else
            (case agg_loop d aggregations [] of
               Err e \<Rightarrow> (Err e, st)
             | Raised x \<Rightarrow> (Raised x, st)
             | Ok agg_map \<Rightarrow>
                 (case groupby_agg env d group_columns agg_map of
                    Inl e \<Rightarrow> (Raised e, st)
                  | Inr g \<Rightarrow>
                      let renamed = \<lparr>columns = map (\<lambda>(c, f). c @ ''_'' @ f) (value_columns g),
                                     rows = value_rows g\<rparr>
                      in (case reset_index (index_names g) (index_keys g) renamed of
                            Inl e \<Rightarrow> (Raised e, st)
                          | Inr out \<Rightarrow>
                              let st1 = st\<lparr>last_result := Some out\<rparr>
                              in (Ok \<lparr>rp_row_count = int (length (rows out)),
                                      rp_rows = df_to_rows out limit\<rparr>, st1)))))"

subsection \<open>\<open>export_last_result\<close>\<close>

record export_payload =
  ep_output_path :: string
  ep_rows_written :: int

definition export_last_result :: "env \<Rightarrow> string \<Rightarrow> state \<Rightarrow> export_payload outcome \<times> state" where
  "export_last_result env output_path st =
     (case last_result st of
        None \<Rightarrow> (Err NoLastResult, st)
      | Some t \<Rightarrow>
          (case resolve_user_path env (base_dir st) output_path of
             Inl e \<Rightarrow> (Raised e, st)
           | Inr out \<Rightarrow>
               if \<not> is_relative_to out (base_dir st) then (Err (AccessDeniedOutput (base_dir st)), st)
               else
                 (case env_write_csv env out t of
                    Some e \<Rightarrow> (Raised e, st)
                  | None \<Rightarrow>
                      (Ok \<lparr>ep_output_path = str_path out,
                           ep_rows_written = int (length (rows t))\<rparr>, st))))"

subsection \<open>The tool interface\<close>

datatype request =
    SetBaseDirectory string
  | GetBaseDirectory
  | LoadCsv string string "string option" int
  | GetSchema
  | Preview int "string list option"
  | DescribeNumeric
  | ValueCounts string int bool bool
  | FilterRows "jdict list" string int
  | GroupbyAggregate "string list" "jdict list" int
  | ExportLastResult string

datatype response =
    BaseDir string
  | Loaded load_payload
  | Schema schema_payload
  | Rows "(string \<times> cell) list list"
  | Counts counts_payload
  | Selected rows_payload
  | Exported export_payload

definition returning :: "('a \<Rightarrow> response) \<Rightarrow> 'a outcome \<times> state \<Rightarrow> response outcome \<times> state" where
  "returning wrap r =
     (case r of
        (Ok v, st) \<Rightarrow> (Ok (wrap v), st)
      | (Err e, st) \<Rightarrow> (Err e, st)
      | (Raised x, st) \<Rightarrow> (Raised x, st))"

fun call_tool :: "env \<Rightarrow> request \<Rightarrow> state \<Rightarrow> response outcome \<times> state" where
  "call_tool env (SetBaseDirectory p) st = returning BaseDir (set_base_directory env p st)"
| "call_tool env GetBaseDirectory st = returning BaseDir (get_base_directory st)"
| "call_tool env (LoadCsv p delimiter encoding sample_rows) st =
     returning Loaded (load_csv env p delimiter encoding sample_rows st)"
| "call_tool env GetSchema st = returning Schema (get_schema st)"
| "call_tool env (Preview n cols) st = returning Rows (preview n cols st)"
| "call_tool env DescribeNumeric st = returning Rows (describe_numeric env st)"
| "call_tool env (ValueCounts column limit normalized dropna) st =
     returning Counts (value_counts env column limit normalized dropna st)"
| "call_tool env (FilterRows filters logic limit) st =
     returning Selected (filter_rows env filters logic limit st)"
| "call_tool env (GroupbyAggregate group_columns aggregations limit) st =
     returning Selected (groupby_aggregate env group_columns aggregations limit st)"
| "call_tool env (ExportLastResult output_path) st =
     returning Exported (export_last_result env output_path st)"

subsection \<open>A sample environment and sample tables\<close>

text \<open>
  A file system without symbolic links, where \<open>resolve\<close> only removes \<open>..\<close> components
  (the parent of the root is the root), with the working directory at the root, and where
  \<open>stat\<close> fails with \<open>ENAMETOOLONG\<close> on a component of more than 255 characters; one home
  directory; a regular-expression engine that knows literal patterns only; \<open>count\<close> as the
  one aggregation function.
\<close>

fun normalize_parts :: "string list \<Rightarrow> string list \<Rightarrow> string list" where
  "normalize_parts acc [] = rev acc"
| "normalize_parts acc (c # cs) =
     (if c = ''..'' then normalize_parts (tl acc) cs else normalize_parts (c # acc) cs)"

definition lexical_realpath :: "path \<Rightarrow> path" where
  "lexical_realpath p = Path True (normalize_parts [] (parts p))"

definition name_too_long :: exc where
  "name_too_long = OSError ''[Errno 36] File name too long''"

definition stat_test :: "(path \<Rightarrow> bool) \<Rightarrow> path \<Rightarrow> exc + bool" where
  "stat_test test p =
     (if list_ex (\<lambda>c. 255 < length c) (parts p) then Inl name_too_long else Inr (test p))"

definition sample_env :: "path list \<Rightarrow> path list \<Rightarrow> dataframe \<Rightarrow> env" where
  "sample_env files dirs d =
     \<lparr>env_homedir = (\<lambda>u. if u = [] then Some ''/home/user'' else None),
      env_realpath = (\<lambda>p. Inr (lexical_realpath p)),
      env_exists = stat_test (\<lambda>p. p \<in> set files \<or> p \<in> set dirs),
      env_is_file = stat_test (\<lambda>p. p \<in> set files),
      env_is_dir = stat_test (\<lambda>p. p \<in> set dirs),
      env_read_csv = (\<lambda>p sep enc. Inr d),
      env_write_csv = (\<lambda>p t. None),
      env_describe_stats = (\<lambda>t cells. CInt (int (length cells)) # replicate 7 CNull),
      env_value_counts = (\<lambda>t cells dropna normalized. []),
      env_re_compile = (\<lambda>pat. Inr (\<lambda>t. sublist pat t)),
      env_isin = (\<lambda>t vs. Inr (\<lambda>c. False)),
      env_compare_nonscalar = (\<lambda>op t cells v. Inl (TypeError ''unsupported operand'')),
      env_agg_reject = (\<lambda>d gs m. None),
      env_reduce = (\<lambda>fn t cells.
         if fn = ''count'' then Inr (CInt (int (length (filter (\<lambda>c. c \<noteq> CNull) cells))))
         else Inl (TypeError ''agg function failed'')),
      env_float_str = (\<lambda>r. ''nan''),
      env_repr = (\<lambda>v. ''[]'')\<rparr>"

text \<open>The three-row table of the specification's scenarios, and one with a number column.\<close>

definition status_df :: dataframe where
  "status_df =
     \<lparr>columns = [''Status''],
      rows = [[CStr ''Open''], [CStr ''Closed''], [CStr ''Open'']],
      dtypes = [Object]\<rparr>"

definition tickets_df :: dataframe where
  "tickets_df =
     \<lparr>columns = [''Status'', ''Hours''],
      rows = [[CStr ''Open'', CInt 3], [CNull, CInt 5], [CStr ''Closed'', CInt 8], [CNull, CInt 1]],
      dtypes = [Object, Int64]\<rparr>"

definition home_user :: path where
  "home_user = Path True [''home'', ''user'']"

definition sample_state :: "dataframe option \<Rightarrow> state" where
  "sample_state d = \<lparr>csv_path = None, df = d, last_result = None, base_dir = home_user\<rparr>"

section \<open>Properties\<close>

subsection \<open>Path resolution outside the base directory\<close>

lemma normalize_parts_append:
  "normalize_parts acc (xs @ ys) = normalize_parts (rev (normalize_parts acc xs)) ys"
  by (induction xs arbitrary: acc) auto

lemma parse_passwd:
  "parse_path ''../../etc/passwd'' = Path False [''..'', ''..'', ''etc'', ''passwd'']"
  by (simp add: parse_path_def)

lemma join_parts_snoc: "join_parts (ps @ [c]) = join_parts ps @ CHR ''/'' # c"
  by (simp add: join_parts_def)

lemma not_csv_passwd: "\<not> endswith (lower (xs @ ''/passwd'')) ''.csv''"
  by (simp add: endswith_def lower_def lower_char_def suffix_to_prefix)

lemma str_path_passwd:
  "str_path (lexical_realpath (Path b (ps @ [''..'', ''..'', ''etc'', ''passwd'']))) =
     join_parts (normalize_parts [] (ps @ [''..'', ''..'', ''etc''])) @ ''/passwd''"
proof -
  have "ps @ [''..'', ''..'', ''etc'', ''passwd''] = (ps @ [''..'', ''..'', ''etc'']) @ [''passwd'']"
    by simp
  then have "normalize_parts [] (ps @ [''..'', ''..'', ''etc'', ''passwd'']) =
      normalize_parts [] (ps @ [''..'', ''..'', ''etc'']) @ [''passwd'']"
    by (simp only: normalize_parts_append) simp
  then show ?thesis
    by (simp add: str_path_def lexical_realpath_def join_parts_snoc)
qed

lemma resolve_passwd:
  assumes "\<forall>q. env_realpath env q = Inr (lexical_realpath q)"
  shows "resolve_csv_path env st ''../../etc/passwd'' = Inl only_csv"
proof -
  have "resolve_user_path env (base_dir st) ''../../etc/passwd'' =
      Inr (lexical_realpath (Path (is_absolute (base_dir st))
             (parts (base_dir st) @ [''..'', ''..'', ''etc'', ''passwd''])))"
    by (simp add: resolve_user_path_def parse_passwd expanduser_def joinpath_def assms)
  then show ?thesis
    by (simp add: resolve_csv_path_def str_path_passwd not_csv_passwd)
qed

lemma resolve_csv_path_resolved:
  assumes "resolve_user_path env (base_dir st) user_path = Inr p"
    and "\<not> is_relative_to p (base_dir st)"
  shows "resolve_csv_path env st user_path =
           Inl (if \<not> endswith (lower (str_path p)) ''.csv'' then only_csv
                else (case env_exists env p of
                        Inl e \<Rightarrow> e
                      | Inr found \<Rightarrow>
                          if \<not> found then csv_not_found p
                          else (case env_is_file env p of
                                  Inl e \<Rightarrow> e
                                | Inr regular \<Rightarrow>
                                    if \<not> regular then csv_not_found p
                                    else access_denied (base_dir st))))"
  using assms
  by (simp add: resolve_csv_path_def exists_and_def split: sum.splits)

text \<open>
  C1, as the code has it. \<open>_resolve_csv_path\<close> never returns a path that resolves outside
  the base directory, but the exception is that of the first check that fails, and the
  check of the base directory is the last one. The resolved path must end in \<open>.csv\<close> (else
  \<open>ValueError\<close>); then \<open>exists()\<close> and \<open>is_file()\<close> are asked, and an \<open>OSError\<close> that one of
  them raises leaves the function as it is; then the path must be an existing regular
  file (else \<open>FileNotFoundError\<close>); only then is it \<open>PermissionError\<close>. On a file system
  without symbolic links \<open>../../etc/passwd\<close> resolves to a path ending in \<open>passwd\<close> under
  every base directory, so it fails with the \<open>ValueError\<close> of the extension check.
\<close>

theorem resolve_csv_path_outside_base:
  assumes "resolve_user_path env (base_dir st) user_path = Inr p"
    and "\<not> is_relative_to p (base_dir st)"
  shows "resolve_csv_path env st user_path =
           Inl (if \<not> endswith (lower (str_path p)) ''.csv'' then only_csv
                else (case env_exists env p of
                        Inl e \<Rightarrow> e
                      | Inr found \<Rightarrow>
                          if \<not> found then csv_not_found p
                          else (case env_is_file env p of
                                  Inl e \<Rightarrow> e
                                | Inr regular \<Rightarrow>
                                    if \<not> regular then csv_not_found p
                                    else access_denied (base_dir st))))
         \<and> ((\<forall>q. env_realpath env q = Inr (lexical_realpath q)) \<longrightarrow>
              resolve_csv_path env st ''../../etc/passwd'' = Inl only_csv)"
proof (intro conjI impI)
  show "resolve_csv_path env st user_path =
           Inl (if \<not> endswith (lower (str_path p)) ''.csv'' then only_csv
                else (case env_exists env p of
                        Inl e \<Rightarrow> e
                      | Inr found \<Rightarrow>
                          if \<not> found then csv_not_found p
                          else (case env_is_file env p of
                                  Inl e \<Rightarrow> e
                                | Inr regular \<Rightarrow>
                                    if \<not> regular then csv_not_found p
                                    else access_denied (base_dir st))))"
    using assms by (rule resolve_csv_path_resolved)
next
  assume "\<forall>q. env_realpath env q = Inr (lexical_realpath q)"
  then show "resolve_csv_path env st ''../../etc/passwd'' = Inl only_csv"
    by (rule resolve_passwd)
qed

theorem resolve_csv_path_outside_base_witness:
  "resolve_user_path (sample_env [Path True [''home'', ''data.csv'']] [] status_df)
       (base_dir (sample_state None)) ''../data.csv'' = Inr (Path True [''home'', ''data.csv''])
   \<and> \<not> is_relative_to (Path True [''home'', ''data.csv'']) (base_dir (sample_state None))
   \<and> (\<forall>q. env_realpath (sample_env [Path True [''home'', ''data.csv'']] [] status_df) q
            = Inr (lexical_realpath q))
   \<and> resolve_csv_path (sample_env [Path True [''home'', ''data.csv'']] [] status_df)
        (sample_state None) ''../data.csv'' = Inl (access_denied home_user)
   \<and> resolve_csv_path (sample_env [Path True [''home'', ''data.csv'']] [] status_df)
        (sample_state None) ''../missing.csv'' = Inl (csv_not_found (Path True [''home'', ''missing.csv'']))
   \<and> resolve_csv_path (sample_env [Path True [''home'', ''data.csv'']] [] status_df)
        (sample_state None) (''../'' @ replicate 300 CHR ''a'' @ ''.csv'') = Inl name_too_long
   \<and> resolve_csv_path (sample_env [Path True [''home'', ''data.csv'']] [] status_df)
        (sample_state None) ''../../etc/passwd'' = Inl only_csv"
proof -
  let ?env = "sample_env [Path True [''home'', ''data.csv'']] [] status_df"
  let ?long = "Path True [''home'', replicate 300 CHR ''a'' @ ''.csv'']"
  have rl: "resolve_user_path ?env (base_dir (sample_state None))
      (''../'' @ replicate 300 CHR ''a'' @ ''.csv'') = Inr ?long"
    by code_simp
  have ol: "\<not> is_relative_to ?long (base_dir (sample_state None))"
    by (simp add: is_relative_to_def sample_state_def home_user_def)
  have cl: "endswith (lower (str_path ?long)) ''.csv''"
    by code_simp
  have fl: "env_exists ?env ?long = Inl name_too_long"
    by code_simp
  let ?p = "Path True [''home'', ''data.csv'']"
  let ?m = "Path True [''home'', ''missing.csv'']"
  have r: "resolve_user_path ?env (base_dir (sample_state None)) ''../data.csv'' = Inr ?p"
    by (simp add: resolve_user_path_def parse_path_def expanduser_def joinpath_def sample_env_def
        sample_state_def home_user_def lexical_realpath_def)
  have rm: "resolve_user_path ?env (base_dir (sample_state None)) ''../missing.csv'' = Inr ?m"
    by (simp add: resolve_user_path_def parse_path_def expanduser_def joinpath_def sample_env_def
        sample_state_def home_user_def lexical_realpath_def)
  have o: "\<not> is_relative_to ?p (base_dir (sample_state None))"
    by (simp add: is_relative_to_def sample_state_def home_user_def)
  have om: "\<not> is_relative_to ?m (base_dir (sample_state None))"
    by (simp add: is_relative_to_def sample_state_def home_user_def)
  have l: "\<forall>q. env_realpath ?env q = Inr (lexical_realpath q)"
    by (simp add: sample_env_def)
  have c: "endswith (lower (str_path ?p)) ''.csv''"
    by (simp add: endswith_def lower_def lower_char_def suffix_to_prefix str_path_def join_parts_def)
  have cm: "endswith (lower (str_path ?m)) ''.csv''"
    by (simp add: endswith_def lower_def lower_char_def suffix_to_prefix str_path_def join_parts_def)
  have f: "env_exists ?env ?p = Inr True" "env_is_file ?env ?p = Inr True"
    by (simp_all add: sample_env_def stat_test_def)
  have fm: "env_exists ?env ?m = Inr False"
    by (simp add: sample_env_def stat_test_def)
  have b: "base_dir (sample_state None) = home_user"
    by (simp add: sample_state_def)
  have long: "resolve_csv_path ?env (sample_state None)
      (''../'' @ replicate 300 CHR ''a'' @ ''.csv'') = Inl name_too_long"
    using resolve_csv_path_outside_base [OF rl ol] cl fl
    by (simp only: simp_thms if_False if_True sum.case)
  from resolve_csv_path_outside_base [OF r o] resolve_csv_path_outside_base [OF rm om]
    r o l c cm f fm b long
  show ?thesis
    by simp
qed

text \<open>
  The claim as written fails: under the base directory \<open>/home/user\<close>, \<open>../../etc/passwd\<close>
  resolves to \<open>/etc/passwd\<close>, outside the base directory, and the exception is the
  \<open>ValueError\<close> of the extension check, not \<open>PermissionError\<close>.
\<close>

theorem resolve_passwd_counterexample:
  "resolve_user_path (sample_env [] [] status_df) (base_dir (sample_state None)) ''../../etc/passwd''
     = Inr (Path True [''etc'', ''passwd''])
   \<and> \<not> is_relative_to (Path True [''etc'', ''passwd'']) (base_dir (sample_state None))
   \<and> resolve_csv_path (sample_env [] [] status_df) (sample_state None) ''../../etc/passwd''
     = Inl (ValueError ''Only .csv files are allowed.'')
   \<and> ValueError ''Only .csv files are allowed.''
     \<noteq> access_denied (base_dir (sample_state None))"
  by (simp add: resolve_csv_path_def resolve_user_path_def parse_path_def expanduser_def
      joinpath_def sample_env_def sample_state_def home_user_def lexical_realpath_def
      is_relative_to_def str_path_def join_parts_def endswith_def lower_def lower_char_def
      suffix_to_prefix only_csv_def access_denied_def)

subsection \<open>A failed call leaves the state as it was\<close>

lemma returning_failure:
  "returning wrap r = (out, st') \<Longrightarrow> is_failure out \<Longrightarrow> \<exists>o'. r = (o', st') \<and> is_failure o'"
  by (auto simp: returning_def split: prod.splits outcome.splits)

lemma set_base_directory_failure:
  "set_base_directory env p st = (out, st') \<Longrightarrow> is_failure out \<Longrightarrow> st' = st"
  by (auto simp: set_base_directory_def Let_def split: sum.splits if_splits)

lemma get_base_directory_failure:
  "get_base_directory st = (out, st') \<Longrightarrow> is_failure out \<Longrightarrow> st' = st"
  by (auto simp: get_base_directory_def)

lemma load_csv_failure:
  "load_csv env p delimiter encoding sample_rows st = (out, st') \<Longrightarrow> is_failure out \<Longrightarrow> st' = st"
  by (auto simp: load_csv_def Let_def split: sum.splits if_splits)

lemma get_schema_failure:
  "get_schema st = (out, st') \<Longrightarrow> is_failure out \<Longrightarrow> st' = st"
  by (auto simp: get_schema_def split: sum.splits)

lemma preview_failure:
  "preview n cols st = (out, st') \<Longrightarrow> is_failure out \<Longrightarrow> st' = st"
  by (auto simp: preview_def Let_def split: sum.splits list.splits if_splits)

lemma describe_numeric_failure:
  "describe_numeric env st = (out, st') \<Longrightarrow> is_failure out \<Longrightarrow> st' = st"
  by (auto simp: describe_numeric_def Let_def split: sum.splits)

lemma value_counts_failure:
  "value_counts env column limit normalized dropna st = (out, st') \<Longrightarrow> is_failure out \<Longrightarrow> st' = st"
  by (auto simp: value_counts_def Let_def split: sum.splits if_splits)

lemma filter_rows_failure:
  "filter_rows env filters logic limit st = (out, st') \<Longrightarrow> is_failure out \<Longrightarrow> st' = st"
  by (auto simp: filter_rows_def Let_def split: sum.splits if_splits outcome.splits)

lemma groupby_aggregate_failure:
  "groupby_aggregate env group_columns aggregations limit st = (out, st') \<Longrightarrow> is_failure out
     \<Longrightarrow> st' = st"
  by (auto simp: groupby_aggregate_def Let_def split: sum.splits if_splits outcome.splits)

lemma export_last_result_failure:
  "export_last_result env output_path st = (out, st') \<Longrightarrow> is_failure out \<Longrightarrow> st' = st"
  by (auto simp: export_last_result_def split: sum.splits if_splits option.splits)

text \<open>
  C2. Whatever the tool and its arguments: when the call ends in an error result or in an
  exception, the state after the call (\<open>csv_path\<close>, \<open>df\<close>, \<open>last_result\<close>, \<open>base_dir\<close>)
  is the state before it. Every tool assigns to \<open>STATE\<close> only after its last check.
\<close>

theorem failure_leaves_state:
  assumes "call_tool env req st = (out, st')" and "is_failure out"
  shows "st' = st"
proof (cases req)
  case (SetBaseDirectory p)
  with assms show ?thesis
    by (auto dest!: returning_failure dest: set_base_directory_failure)
next
  case GetBaseDirectory
  with assms show ?thesis
    by (auto dest!: returning_failure dest: get_base_directory_failure)
next
  case (LoadCsv p delimiter encoding sample_rows)
  with assms show ?thesis
    by (auto dest!: returning_failure dest: load_csv_failure)
next
  case GetSchema
  with assms show ?thesis
    by (auto dest!: returning_failure dest: get_schema_failure)
next
  case (Preview n cols)
  with assms show ?thesis
    by (auto dest!: returning_failure dest: preview_failure)
next
  case DescribeNumeric
  with assms show ?thesis
    by (auto dest!: returning_failure dest: describe_numeric_failure)
next
  case (ValueCounts column limit normalized dropna)
  with assms show ?thesis
    by (auto dest!: returning_failure dest: value_counts_failure)
next
  case (FilterRows filters logic limit)
  with assms show ?thesis
    by (auto dest!: returning_failure dest: filter_rows_failure)
next
  case (GroupbyAggregate group_columns aggregations limit)
  with assms show ?thesis
    by (auto dest!: returning_failure dest: groupby_aggregate_failure)
next
  case (ExportLastResult output_path)
  with assms show ?thesis
    by (auto dest!: returning_failure dest: export_last_result_failure)
qed


theorem failure_leaves_state_witness:
  "call_tool (sample_env [] [] status_df) (FilterRows [[''column'' \<mapsto> JStr ''Nope'']] ''and'' 10)
       (sample_state (Some status_df))
     = (Err (UnknownFilterColumn (JStr ''Nope'')), sample_state (Some status_df))
   \<and> is_failure (Err (UnknownFilterColumn (JStr ''Nope'')) :: response outcome)"
proof -
  have h: "call_tool (sample_env [] [] status_df)
       (FilterRows [[''column'' \<mapsto> JStr ''Nope'']] ''and'' 10) (sample_state (Some status_df))
     = (Err (UnknownFilterColumn (JStr ''Nope'')), snd (call_tool (sample_env [] [] status_df)
       (FilterRows [[''column'' \<mapsto> JStr ''Nope'']] ''and'' 10) (sample_state (Some status_df))))"
    by (simp add: returning_def filter_rows_def ensure_loaded_def sample_state_def filter_mask_def
        get_def get_default_def lookup_column_def status_df_def)
  have f: "is_failure (Err (UnknownFilterColumn (JStr ''Nope'')) :: response outcome)"
    by simp
  from failure_leaves_state [OF h f] h f show ?thesis
    by simp
qed

subsection \<open>\<open>describe_numeric\<close> on a table without numeric columns\<close>

text \<open>
  C3. On the three-row table with the single text column \<open>Status\<close>, in every
  environment, \<open>describe_numeric\<close> does not return an empty summary: the \<open>ValueError\<close> of
  \<open>df.describe(include="number")\<close> leaves the tool, and \<open>last_result\<close> is not set.
\<close>

theorem describe_numeric_without_numbers:
  "describe_numeric env (sample_state (Some status_df)) =
     (Raised (ValueError ''No objects to concatenate''), sample_state (Some status_df))"
  by (simp add: describe_numeric_def ensure_loaded_def sample_state_def describe_number_def
      status_df_def numeric_columns_def dtype_of_def is_numeric_def)

subsection \<open>\<open>filter_rows\<close>: no filters, and limits\<close>

lemma df_to_rows_take:
  "df_to_rows t limit = to_dict_records (columns t) (take (nat limit) (rows t))"
  by (simp add: df_to_rows_def head_def to_dict_records_def)

text \<open>
  C4. With a table loaded and \<open>logic\<close> one of \<open>and\<close>, \<open>or\<close>, an empty filter list selects
  every row: \<open>row_count\<close> is the table's number of rows, the returned rows are the table's
  first \<open>limit\<close> rows, and \<open>last_result\<close> becomes the whole table.
\<close>

theorem filter_rows_no_filters:
  assumes "df st = Some d" and "logic = ''and'' \<or> logic = ''or''"
  shows "filter_rows env [] logic limit st =
     (Ok \<lparr>rp_row_count = int (length (rows d)),
          rp_rows = to_dict_records (columns d) (take (nat limit) (rows d))\<rparr>,
      st\<lparr>last_result := Some (table_of d)\<rparr>)"
  using assms
  by (auto simp: filter_rows_def ensure_loaded_def apply_mask_def df_to_rows_take)

theorem filter_rows_no_filters_witness:
  "df (sample_state (Some status_df)) = Some status_df
   \<and> (''and'' = ''and'' \<or> ''and'' = ''or'')
   \<and> filter_rows (sample_env [] [] status_df) [] ''and'' 2 (sample_state (Some status_df)) =
     (Ok \<lparr>rp_row_count = 3,
          rp_rows = [[(''Status'', CStr ''Open'')], [(''Status'', CStr ''Closed'')]]\<rparr>,
      (sample_state (Some status_df))\<lparr>last_result := Some (table_of status_df)\<rparr>)"
proof -
  have d: "df (sample_state (Some status_df)) = Some status_df"
    by (simp add: sample_state_def)
  have l: "''and'' = ''and'' \<or> ''and'' = ''or''"
    by simp
  have t: "take (nat 2) (rows status_df) = [[CStr ''Open''], [CStr ''Closed'']]"
    by (simp add: status_df_def)
  from filter_rows_no_filters [OF d l, of "sample_env [] [] status_df" 2] d t show ?thesis
    by (simp add: to_dict_records_def) (simp add: status_df_def)
qed

text \<open>
  C9. A limit of zero or less is accepted: whenever \<open>filter_rows\<close> succeeds with some limit,
  it succeeds with every limit \<open>\<le> 0\<close> as well, with the same \<open>row_count\<close> (the number of
  rows of the selection stored in \<open>last_result\<close>), the same state, and no rows returned.
\<close>

theorem filter_rows_nonpositive_limit:
  assumes "limit \<le> 0"
    and "filter_rows env filters logic limit' st = (Ok p, st')"
  shows "filter_rows env filters logic limit st = (Ok (p\<lparr>rp_rows := []\<rparr>), st')
         \<and> (\<exists>t. last_result st' = Some t \<and> rp_row_count p = int (length (rows t)))"
  using assms
  by (auto simp: filter_rows_def Let_def df_to_rows_def table_of_def
      split: sum.splits if_splits outcome.splits)

theorem filter_rows_nonpositive_limit_witness:
  "(0::int) \<le> 0
   \<and> filter_rows (sample_env [] [] status_df)
        [[''column'' \<mapsto> JStr ''Hours'', ''op'' \<mapsto> JStr ''>'', ''value'' \<mapsto> JInt 3]] ''and'' 200
        (sample_state (Some tickets_df))
      = (Ok \<lparr>rp_row_count = 2,
             rp_rows = [[(''Status'', CNull), (''Hours'', CInt 5)],
                        [(''Status'', CStr ''Closed''), (''Hours'', CInt 8)]]\<rparr>,
         (sample_state (Some tickets_df))
           \<lparr>last_result := Some \<lparr>columns = [''Status'', ''Hours''],
                                  rows = [[CNull, CInt 5], [CStr ''Closed'', CInt 8]]\<rparr>\<rparr>)
   \<and> filter_rows (sample_env [] [] status_df)
        [[''column'' \<mapsto> JStr ''Hours'', ''op'' \<mapsto> JStr ''>'', ''value'' \<mapsto> JInt 3]] ''and'' 0
        (sample_state (Some tickets_df))
      = (Ok \<lparr>rp_row_count = 2, rp_rows = []\<rparr>,
         (sample_state (Some tickets_df))
           \<lparr>last_result := Some \<lparr>columns = [''Status'', ''Hours''],
                                  rows = [[CNull, CInt 5], [CStr ''Closed'', CInt 8]]\<rparr>\<rparr>)"
proof -
  let ?f = "[[''column'' \<mapsto> JStr ''Hours'', ''op'' \<mapsto> JStr ''>'', ''value'' \<mapsto> JInt 3]]"
  have m: "filter_mask (sample_env [] [] status_df) tickets_df (hd ?f) = Ok [False, True, True, False]"
    by (simp add: filter_mask_def get_def get_default_def lookup_column_def tickets_df_def
        comparison_ops_def series_compare_def comparison_op_def scalar_compare_def py_compare_def
        cmp_holds_def dtype_of_def series_def col_value_def)
  have h: "filter_rows (sample_env [] [] status_df) ?f ''and'' 200 (sample_state (Some tickets_df))
      = (Ok \<lparr>rp_row_count = 2,
             rp_rows = [[(''Status'', CNull), (''Hours'', CInt 5)],
                        [(''Status'', CStr ''Closed''), (''Hours'', CInt 8)]]\<rparr>,
         (sample_state (Some tickets_df))
           \<lparr>last_result := Some \<lparr>columns = [''Status'', ''Hours''],
                                  rows = [[CNull, CInt 5], [CStr ''Closed'', CInt 8]]\<rparr>\<rparr>)"
    using m
    by (simp add: filter_rows_def ensure_loaded_def sample_state_def apply_mask_def select_mask_def
        df_to_rows_def head_def to_dict_records_def table_of_def) (simp add: tickets_df_def)
  have z: "(0::int) \<le> 0"
    by simp
  from filter_rows_nonpositive_limit [OF z h] h show ?thesis
    by simp
qed

subsection \<open>\<open>filter_rows\<close>: \<open>and\<close> selects within \<open>or\<close>\<close>

lemma combine_and_or:
  assumes "list_all2 (\<longrightarrow>) a b"
  shows "list_all2 (\<longrightarrow>) (combine ''and'' a m) (combine ''or'' b m)"
proof -
  from assms have len: "length a = length b"
    by (rule list_all2_lengthD)
  from assms have nth: "\<And>i. i < length a \<Longrightarrow> a ! i \<longrightarrow> b ! i"
    by (simp add: list_all2_conv_all_nth)
  show ?thesis
    using len nth by (simp add: combine_def list_all2_conv_all_nth)
qed

lemma filter_loop_and_or:
  assumes "list_all2 (\<longrightarrow>) a b"
    and "filter_loop env d ''and'' fs (Some a) = Ok ra"
    and "filter_loop env d ''or'' fs (Some b) = Ok rb"
  shows "\<exists>a' b'. ra = Some a' \<and> rb = Some b' \<and> list_all2 (\<longrightarrow>) a' b'"
  using assms
proof (induction fs arbitrary: a b)
  case Nil
  then show ?case by auto
next
  case (Cons f fs)
  from Cons.prems(2) obtain m where m: "filter_mask env d f = Ok m"
    by (auto split: outcome.splits)
  with Cons.prems have
    "filter_loop env d ''and'' fs (Some (combine ''and'' a m)) = Ok ra"
    "filter_loop env d ''or'' fs (Some (combine ''or'' b m)) = Ok rb"
    by simp_all
  with combine_and_or [OF Cons.prems(1)] show ?case
    by (rule Cons.IH)
qed

lemma select_mask_subseq:
  "list_all2 (\<longrightarrow>) a b \<Longrightarrow> subseq (select_mask rs a) (select_mask rs b)"
proof (induction rs arbitrary: a b)
  case Nil
  then show ?case by (simp add: select_mask_def)
next
  case (Cons r rs)
  show ?case
  proof (cases a)
    case Nil
    with Cons.prems show ?thesis by (simp add: select_mask_def)
  next
    case a: (Cons x xs)
    with Cons.prems obtain y ys where b: "b = y # ys" and xy: "x \<longrightarrow> y" and rest: "list_all2 (\<longrightarrow>) xs ys"
      by (auto simp: list_all2_Cons1)
    from Cons.IH [OF rest] have "subseq (select_mask rs xs) (select_mask rs ys)" .
    with xy show ?thesis
      by (auto simp: a b select_mask_def)
  qed
qed

lemma filter_loop_selection:
  assumes "filter_loop env d ''and'' fs None = Ok ma"
    and "filter_loop env d ''or'' fs None = Ok mo"
  shows "subseq (rows (apply_mask d ma)) (rows (apply_mask d mo))"
proof (cases fs)
  case Nil
  with assms show ?thesis by auto
next
  case (Cons f rest)
  from assms(1) Cons obtain m where m: "filter_mask env d f = Ok m"
    by (auto split: outcome.splits)
  have refl: "list_all2 (\<longrightarrow>) m m"
    by (simp add: list_all2_conv_all_nth)
  from assms Cons m have
    "filter_loop env d ''and'' rest (Some m) = Ok ma"
    "filter_loop env d ''or'' rest (Some m) = Ok mo"
    by simp_all
  with refl obtain a' b' where "ma = Some a'" "mo = Some b'" "list_all2 (\<longrightarrow>) a' b'"
    using filter_loop_and_or by blast
  then show ?thesis
    by (simp add: apply_mask_def select_mask_subseq)
qed

lemma subseq_set: "subseq xs ys \<Longrightarrow> set xs \<subseteq> set ys"
  by (auto dest: list_emb_set)

text \<open>
  C5. On the same table and the same filter list, when \<open>filter_rows\<close> succeeds with
  \<open>logic="and"\<close> and with \<open>logic="or"\<close>, the rows selected with \<open>and\<close> (the rows of
  \<open>last_result\<close>) are rows selected with \<open>or\<close>, in the same order: a subsequence, hence a
  subset, and \<open>row_count\<close> is no larger.
\<close>

theorem filter_rows_and_within_or:
  assumes "filter_rows env filters ''and'' limit st = (Ok pa, sa)"
    and "filter_rows env filters ''or'' limit' st = (Ok pb, sb)"
  shows "\<exists>ta tb. last_result sa = Some ta \<and> last_result sb = Some tb
           \<and> subseq (rows ta) (rows tb) \<and> set (rows ta) \<subseteq> set (rows tb)
           \<and> rp_row_count pa = int (length (rows ta)) \<and> rp_row_count pb = int (length (rows tb))
           \<and> rp_row_count pa \<le> rp_row_count pb"
proof -
  from assms(1) obtain d where d: "ensure_loaded st = Inr d"
    by (auto simp: filter_rows_def split: sum.splits)
  from assms(1) d obtain ma where ma: "filter_loop env d ''and'' filters None = Ok ma"
    by (auto simp: filter_rows_def split: outcome.splits)
  from assms(2) d obtain mo where mo: "filter_loop env d ''or'' filters None = Ok mo"
    by (auto simp: filter_rows_def split: outcome.splits)
  have sub: "subseq (rows (apply_mask d ma)) (rows (apply_mask d mo))"
    using ma mo by (rule filter_loop_selection)
  from assms(1) d ma have a: "last_result sa = Some (table_of (apply_mask d ma))"
      "rp_row_count pa = int (length (rows (apply_mask d ma)))"
    by (auto simp: filter_rows_def Let_def)
  from assms(2) d mo have b: "last_result sb = Some (table_of (apply_mask d mo))"
      "rp_row_count pb = int (length (rows (apply_mask d mo)))"
    by (auto simp: filter_rows_def Let_def)
  from sub have "length (rows (apply_mask d ma)) \<le> length (rows (apply_mask d mo))"
    by (rule list_emb_length)
  with sub a b show ?thesis
    by (simp add: table_of_def subseq_set)
qed

theorem filter_rows_and_within_or_witness:
  "filter_rows (sample_env [] [] status_df)
       [[''column'' \<mapsto> JStr ''Hours'', ''op'' \<mapsto> JStr ''>'', ''value'' \<mapsto> JInt 3],
        [''column'' \<mapsto> JStr ''Status'', ''op'' \<mapsto> JStr ''startswith'', ''value'' \<mapsto> JStr ''CL'']]
       ''and'' 200 (sample_state (Some tickets_df))
     = (Ok \<lparr>rp_row_count = 1, rp_rows = [[(''Status'', CStr ''Closed''), (''Hours'', CInt 8)]]\<rparr>,
        (sample_state (Some tickets_df))
          \<lparr>last_result := Some \<lparr>columns = [''Status'', ''Hours''],
                                 rows = [[CStr ''Closed'', CInt 8]]\<rparr>\<rparr>)
   \<and> filter_rows (sample_env [] [] status_df)
       [[''column'' \<mapsto> JStr ''Hours'', ''op'' \<mapsto> JStr ''>'', ''value'' \<mapsto> JInt 3],
        [''column'' \<mapsto> JStr ''Status'', ''op'' \<mapsto> JStr ''startswith'', ''value'' \<mapsto> JStr ''CL'']]
       ''or'' 200 (sample_state (Some tickets_df))
     = (Ok \<lparr>rp_row_count = 2,
            rp_rows = [[(''Status'', CNull), (''Hours'', CInt 5)],
                       [(''Status'', CStr ''Closed''), (''Hours'', CInt 8)]]\<rparr>,
        (sample_state (Some tickets_df))
          \<lparr>last_result := Some \<lparr>columns = [''Status'', ''Hours''],
                                 rows = [[CNull, CInt 5], [CStr ''Closed'', CInt 8]]\<rparr>\<rparr>)
   \<and> subseq [[CStr ''Closed'', CInt 8]] [[CNull, CInt 5], [CStr ''Closed'', CInt 8]]"
proof -
  let ?f1 = "[''column'' \<mapsto> JStr ''Hours'', ''op'' \<mapsto> JStr ''>'', ''value'' \<mapsto> JInt 3]"
  let ?f2 = "[''column'' \<mapsto> JStr ''Status'', ''op'' \<mapsto> JStr ''startswith'', ''value'' \<mapsto> JStr ''CL'']"
  let ?env = "sample_env [] [] status_df"
  have m1: "filter_mask ?env tickets_df ?f1 = Ok [False, True, True, False]"
    by (simp add: filter_mask_def get_def get_default_def lookup_column_def tickets_df_def
        comparison_ops_def series_compare_def comparison_op_def scalar_compare_def py_compare_def
        cmp_holds_def dtype_of_def series_def col_value_def)
  have low: "lower ''CL'' = ''cl''" "lower ''Open'' = ''open''" "lower ''Closed'' = ''closed''"
    by code_simp+
  have m2: "filter_mask ?env tickets_df ?f2 = Ok [False, False, True, False]"
    by (simp add: filter_mask_def get_def get_default_def lookup_column_def tickets_df_def
        comparison_ops_def string_ops_def string_filter_def astype_string_def py_str_def
        str_lower_def low str_startswith_def str_test_def startswith_def
        series_def col_value_def)
  have a: "filter_rows ?env [?f1, ?f2] ''and'' 200 (sample_state (Some tickets_df))
     = (Ok \<lparr>rp_row_count = 1, rp_rows = [[(''Status'', CStr ''Closed''), (''Hours'', CInt 8)]]\<rparr>,
        (sample_state (Some tickets_df))
          \<lparr>last_result := Some \<lparr>columns = [''Status'', ''Hours''],
                                 rows = [[CStr ''Closed'', CInt 8]]\<rparr>\<rparr>)"
    using m1 m2
    by (simp add: filter_rows_def ensure_loaded_def sample_state_def apply_mask_def select_mask_def
        df_to_rows_def head_def to_dict_records_def table_of_def combine_def)
       (simp add: tickets_df_def)
  have b: "filter_rows ?env [?f1, ?f2] ''or'' 200 (sample_state (Some tickets_df))
     = (Ok \<lparr>rp_row_count = 2,
            rp_rows = [[(''Status'', CNull), (''Hours'', CInt 5)],
                       [(''Status'', CStr ''Closed''), (''Hours'', CInt 8)]]\<rparr>,
        (sample_state (Some tickets_df))
          \<lparr>last_result := Some \<lparr>columns = [''Status'', ''Hours''],
                                 rows = [[CNull, CInt 5], [CStr ''Closed'', CInt 8]]\<rparr>\<rparr>)"
    using m1 m2
    by (simp add: filter_rows_def ensure_loaded_def sample_state_def apply_mask_def select_mask_def
        df_to_rows_def head_def to_dict_records_def table_of_def combine_def)
       (simp add: tickets_df_def)
  from filter_rows_and_within_or [OF a b] a b show ?thesis
    by simp
qed

subsection \<open>\<open>export_last_result\<close> checks the base directory only\<close>

text \<open>
  C10. With a last result to export, \<open>export_last_result\<close> applies one check to the
  resolved output path, that of the base directory: a path outside it is refused with the
  \<open>Access denied\<close> error result, whatever the write would do, and for a path under it the
  tool goes on to write, whatever the suffix of the path, its outcome being the outcome of
  the write. \<open>load_csv\<close>, on the same state, raises the \<open>ValueError\<close> of the extension check
  for every path whose resolved form does not end in \<open>.csv\<close>, letter case ignored.
\<close>

theorem export_checks_base_only:
  assumes "last_result st = Some t"
    and "resolve_user_path env (base_dir st) output_path = Inr out"
  shows "export_last_result env output_path st =
           (if \<not> is_relative_to out (base_dir st)
            then (Err (AccessDeniedOutput (base_dir st)), st)
            else (case env_write_csv env out t of
                    Some e \<Rightarrow> (Raised e, st)
                  | None \<Rightarrow> (Ok \<lparr>ep_output_path = str_path out,
                                  ep_rows_written = int (length (rows t))\<rparr>, st)))
         \<and> (\<forall>p q delimiter encoding sample_rows.
               resolve_user_path env (base_dir st) p = Inr q
               \<longrightarrow> \<not> endswith (lower (str_path q)) ''.csv''
               \<longrightarrow> load_csv env p delimiter encoding sample_rows st = (Raised only_csv, st))"
  using assms
  by (auto simp: export_last_result_def load_csv_def resolve_csv_path_def split: option.splits)

theorem export_checks_base_only_witness:
  "last_result ((sample_state (Some status_df))\<lparr>last_result := Some (table_of status_df)\<rparr>)
     = Some (table_of status_df)
   \<and> resolve_user_path (sample_env [] [] status_df) home_user ''out/result.txt''
     = Inr (Path True [''home'', ''user'', ''out'', ''result.txt''])
   \<and> is_relative_to (Path True [''home'', ''user'', ''out'', ''result.txt'']) home_user
   \<and> \<not> endswith (lower (str_path (Path True [''home'', ''user'', ''out'', ''result.txt'']))) ''.csv''
   \<and> export_last_result (sample_env [] [] status_df) ''out/result.txt''
        ((sample_state (Some status_df))\<lparr>last_result := Some (table_of status_df)\<rparr>)
     = (Ok \<lparr>ep_output_path = ''/home/user/out/result.txt'', ep_rows_written = 3\<rparr>,
        (sample_state (Some status_df))\<lparr>last_result := Some (table_of status_df)\<rparr>)
   \<and> load_csv (sample_env [] [] status_df) ''out/result.txt'' '','' None 10
        ((sample_state (Some status_df))\<lparr>last_result := Some (table_of status_df)\<rparr>)
     = (Raised only_csv,
        (sample_state (Some status_df))\<lparr>last_result := Some (table_of status_df)\<rparr>)
   \<and> resolve_user_path (sample_env [] [] status_df) home_user ''../../etc/passwd''
     = Inr (Path True [''etc'', ''passwd''])
   \<and> \<not> is_relative_to (Path True [''etc'', ''passwd'']) home_user
   \<and> export_last_result (sample_env [] [] status_df) ''../../etc/passwd''
        ((sample_state (Some status_df))\<lparr>last_result := Some (table_of status_df)\<rparr>)
     = (Err (AccessDeniedOutput home_user),
        (sample_state (Some status_df))\<lparr>last_result := Some (table_of status_df)\<rparr>)"
proof -
  let ?st = "(sample_state (Some status_df))\<lparr>last_result := Some (table_of status_df)\<rparr>"
  let ?env = "sample_env [] [] status_df"
  let ?out = "Path True [''home'', ''user'', ''out'', ''result.txt'']"
  let ?pw = "Path True [''etc'', ''passwd'']"
  have b: "base_dir ?st = home_user"
    by (simp add: sample_state_def)
  have l: "last_result ?st = Some (table_of status_df)"
    by simp
  have r: "resolve_user_path ?env (base_dir ?st) ''out/result.txt'' = Inr ?out"
    by (simp add: resolve_user_path_def parse_path_def expanduser_def joinpath_def sample_env_def
        sample_state_def home_user_def lexical_realpath_def)
  have rp: "resolve_user_path ?env (base_dir ?st) ''../../etc/passwd'' = Inr ?pw"
    by (simp add: resolve_user_path_def parse_path_def expanduser_def joinpath_def sample_env_def
        sample_state_def home_user_def lexical_realpath_def)
  have u: "is_relative_to ?out (base_dir ?st)"
    by (simp add: is_relative_to_def sample_state_def home_user_def)
  have up: "\<not> is_relative_to ?pw (base_dir ?st)"
    by (simp add: is_relative_to_def sample_state_def home_user_def)
  have s: "str_path ?out = ''/home/user/out/result.txt''"
    by (simp add: str_path_def join_parts_def)
  have x: "\<not> endswith (lower (str_path ?out)) ''.csv''"
    by (simp add: s endswith_def lower_def lower_char_def suffix_to_prefix)
  have w: "env_write_csv ?env ?out (table_of status_df) = None"
    by (simp add: sample_env_def)
  have n: "int (length (rows (table_of status_df))) = 3"
    by (simp add: table_of_def status_df_def)
  note both = export_checks_base_only [OF l r]
  from both u have e: "export_last_result ?env ''out/result.txt'' ?st =
       (Ok \<lparr>ep_output_path = ''/home/user/out/result.txt'', ep_rows_written = 3\<rparr>, ?st)"
    by (simp only: w s n option.case if_False not_True_eq_False simp_thms)
  from both r x have d: "load_csv ?env ''out/result.txt'' '','' None 10 ?st = (Raised only_csv, ?st)"
    by blast
  from export_checks_base_only [OF l rp] up
  have a: "export_last_result ?env ''../../etc/passwd'' ?st = (Err (AccessDeniedOutput home_user), ?st)"
    by (simp add: b)
  from e d a l r rp u up x b show ?thesis
    by simp
qed

subsection \<open>\<open>filter_rows\<close>: a string against a number column\<close>

lemma filter_loop_append:
  "filter_loop env d logic (pre @ rest) acc =
     (case filter_loop env d logic pre acc of
        Ok m \<Rightarrow> filter_loop env d logic rest m
      | Err e \<Rightarrow> Err e
      | Raised x \<Rightarrow> Raised x)"
  by (induction pre arbitrary: acc) (auto split: outcome.splits)

lemma filter_mask_comparison:
  assumes "lookup_column d (get f ''column'') = ColumnFound c"
    and "get f ''op'' = JStr opname"
    and "opname \<in> set comparison_ops"
  shows "filter_mask env d f =
     (case series_compare env opname (dtype_of d c) (series d c) (get f ''value'') of
        Inl e \<Rightarrow> Err (ComparisonFailed c opname (get f ''value'') e)
      | Inr m \<Rightarrow> Ok m)"
  using assms by (simp add: filter_mask_def Let_def)

lemma series_compare_string_number:
  assumes "dt \<noteq> Object"
  shows "series_compare env opname dt cells (JStr v) = invalid_comparison opname dt cells"
  using assms by (simp add: series_compare_def comparison_op_def)

text \<open>
  C6, as the code has it. The filter compares a column of numeric or boolean dtype with a
  string. With \<open>>\<close>, \<open>>=\<close>, \<open><\<close> or \<open><=\<close> pandas raises \<open>TypeError\<close>, which
  \<open>filter_rows\<close> catches: the call ends in the \<open>Comparison failed\<close> error result, if the
  filters before this one evaluate. With \<open>==\<close> and \<open>!=\<close> pandas does not raise: the mask
  is false in every row for \<open>==\<close> and true in every row for \<open>!=\<close>.
\<close>

theorem string_against_number:
  assumes "df st = Some d"
    and "logic = ''and'' \<or> logic = ''or''"
    and "filter_loop env d logic pre None = Ok m0"
    and "lookup_column d (get f ''column'') = ColumnFound c"
    and "dtype_of d c \<noteq> Object"
    and "get f ''op'' = JStr opname"
    and "get f ''value'' = JStr v"
  shows "(opname \<in> set [''>'', ''>='', ''<'', ''<='']
            \<longrightarrow> filter_rows env (pre @ f # post) logic limit st =
                  (Err (ComparisonFailed c opname (JStr v)
                         (TypeError (''Invalid comparison between dtype=''
                                     @ dtype_name (dtype_of d c) @ '' and str''))), st))
         \<and> (opname = ''=='' \<longrightarrow> filter_mask env d f = Ok (map (\<lambda>_. False) (series d c)))
         \<and> (opname = ''!='' \<longrightarrow> filter_mask env d f = Ok (map (\<lambda>_. True) (series d c)))"
proof (intro conjI impI)
  assume o: "opname \<in> set [''>'', ''>='', ''<'', ''<='']"
  then have "opname \<in> set comparison_ops"
    by (auto simp: comparison_ops_def)
  from filter_mask_comparison [OF assms(4) assms(6) this] assms(5) assms(7) o
  have "filter_mask env d f =
      Err (ComparisonFailed c opname (JStr v)
            (TypeError (''Invalid comparison between dtype='' @ dtype_name (dtype_of d c) @ '' and str'')))"
    by (auto simp: series_compare_string_number invalid_comparison_def)
  with assms(1-3) show "filter_rows env (pre @ f # post) logic limit st =
                  (Err (ComparisonFailed c opname (JStr v)
                         (TypeError (''Invalid comparison between dtype=''
                                     @ dtype_name (dtype_of d c) @ '' and str''))), st)"
    by (auto simp: filter_rows_def ensure_loaded_def filter_loop_append)
next
  assume o: "opname = ''==''"
  then have "opname \<in> set comparison_ops"
    by (simp add: comparison_ops_def)
  from filter_mask_comparison [OF assms(4) assms(6) this] assms(5) assms(7) o
  show "filter_mask env d f = Ok (map (\<lambda>_. False) (series d c))"
    by (simp add: series_compare_string_number invalid_comparison_def)
next
  assume o: "opname = ''!=''"
  then have "opname \<in> set comparison_ops"
    by (simp add: comparison_ops_def)
  from filter_mask_comparison [OF assms(4) assms(6) this] assms(5) assms(7) o
  show "filter_mask env d f = Ok (map (\<lambda>_. True) (series d c))"
    by (simp add: series_compare_string_number invalid_comparison_def)
qed

text \<open>
  The claim as written fails for \<open>==\<close>: on the number column \<open>Hours\<close>, the filter
  \<open>Hours == "Open"\<close> produces a mask (no row matches) and the call succeeds with
  \<open>row_count = 0\<close>.
\<close>

theorem equality_with_string_counterexample:
  "filter_rows (sample_env [] [] status_df)
      [[''column'' \<mapsto> JStr ''Hours'', ''op'' \<mapsto> JStr ''=='', ''value'' \<mapsto> JStr ''Open'']]
      ''and'' 200 (sample_state (Some tickets_df))
   = (Ok \<lparr>rp_row_count = 0, rp_rows = []\<rparr>,
      (sample_state (Some tickets_df))
        \<lparr>last_result := Some \<lparr>columns = [''Status'', ''Hours''], rows = []\<rparr>\<rparr>)
   \<and> dtype_of tickets_df ''Hours'' = Int64"
proof -
  have m: "filter_mask (sample_env [] [] status_df) tickets_df
      [''column'' \<mapsto> JStr ''Hours'', ''op'' \<mapsto> JStr ''=='', ''value'' \<mapsto> JStr ''Open'']
      = Ok [False, False, False, False]"
    by (simp add: filter_mask_def get_def get_default_def lookup_column_def tickets_df_def
        comparison_ops_def series_compare_def comparison_op_def invalid_comparison_def
        dtype_of_def series_def col_value_def)
  have t: "dtype_of tickets_df ''Hours'' = Int64"
    by (simp add: dtype_of_def tickets_df_def)
  from m t show ?thesis
    by (simp add: filter_rows_def ensure_loaded_def sample_state_def apply_mask_def select_mask_def
        df_to_rows_def head_def to_dict_records_def table_of_def) (simp add: tickets_df_def)
qed

theorem string_against_number_witness:
  "df (sample_state (Some tickets_df)) = Some tickets_df
   \<and> (''and'' = ''and'' \<or> ''and'' = ''or'')
   \<and> filter_loop (sample_env [] [] status_df) tickets_df ''and'' [] None = Ok None
   \<and> lookup_column tickets_df (JStr ''Hours'') = ColumnFound ''Hours''
   \<and> dtype_of tickets_df ''Hours'' \<noteq> Object
   \<and> ''>'' \<in> set [''>'', ''>='', ''<'', ''<='']
   \<and> filter_rows (sample_env [] [] status_df)
        [[''column'' \<mapsto> JStr ''Hours'', ''op'' \<mapsto> JStr ''>'', ''value'' \<mapsto> JStr ''Open'']]
        ''and'' 200 (sample_state (Some tickets_df))
      = (Err (ComparisonFailed ''Hours'' ''>'' (JStr ''Open'')
               (TypeError ''Invalid comparison between dtype=int64 and str'')),
         sample_state (Some tickets_df))
   \<and> filter_mask (sample_env [] [] status_df) tickets_df
        [''column'' \<mapsto> JStr ''Hours'', ''op'' \<mapsto> JStr ''=='', ''value'' \<mapsto> JStr ''Open'']
      = Ok [False, False, False, False]
   \<and> filter_mask (sample_env [] [] status_df) tickets_df
        [''column'' \<mapsto> JStr ''Hours'', ''op'' \<mapsto> JStr ''!='', ''value'' \<mapsto> JStr ''Open'']
      = Ok [True, True, True, True]"
proof -
  let ?gt = "[''column'' \<mapsto> JStr ''Hours'', ''op'' \<mapsto> JStr ''>'', ''value'' \<mapsto> JStr ''Open'']"
  let ?eq = "[''column'' \<mapsto> JStr ''Hours'', ''op'' \<mapsto> JStr ''=='', ''value'' \<mapsto> JStr ''Open'']"
  let ?ne = "[''column'' \<mapsto> JStr ''Hours'', ''op'' \<mapsto> JStr ''!='', ''value'' \<mapsto> JStr ''Open'']"
  let ?env = "sample_env [] [] status_df"
  have d: "df (sample_state (Some tickets_df)) = Some tickets_df"
    by (simp add: sample_state_def)
  have l: "''and'' = ''and'' \<or> ''and'' = ''or''"
    by simp
  have p: "filter_loop ?env tickets_df ''and'' [] None = Ok None"
    by simp
  have c: "lookup_column tickets_df (JStr ''Hours'') = ColumnFound ''Hours''"
    by (simp add: lookup_column_def tickets_df_def)
  have cs: "lookup_column tickets_df (get ?gt ''column'') = ColumnFound ''Hours''"
      "lookup_column tickets_df (get ?eq ''column'') = ColumnFound ''Hours''"
      "lookup_column tickets_df (get ?ne ''column'') = ColumnFound ''Hours''"
    by (simp_all add: get_def get_default_def c)
  have t: "dtype_of tickets_df ''Hours'' = Int64"
    by (simp add: dtype_of_def tickets_df_def)
  then have n: "dtype_of tickets_df ''Hours'' \<noteq> Object"
    by simp
  have os: "get ?gt ''op'' = JStr ''>''" "get ?eq ''op'' = JStr ''==''" "get ?ne ''op'' = JStr ''!=''"
    by (simp_all add: get_def get_default_def)
  have vs: "get ?gt ''value'' = JStr ''Open''" "get ?eq ''value'' = JStr ''Open''"
      "get ?ne ''value'' = JStr ''Open''"
    by (simp_all add: get_def get_default_def)
  have i: "''>'' \<in> set [''>'', ''>='', ''<'', ''<='']"
    by simp
  have s: "series tickets_df ''Hours'' = [CInt 3, CInt 5, CInt 8, CInt 1]"
    by (simp add: series_def col_value_def tickets_df_def)
  have gt: "filter_rows ?env [?gt] ''and'' 200 (sample_state (Some tickets_df))
      = (Err (ComparisonFailed ''Hours'' ''>'' (JStr ''Open'')
               (TypeError ''Invalid comparison between dtype=int64 and str'')),
         sample_state (Some tickets_df))"
    using string_against_number [OF d l p cs(1) n os(1) vs(1), of "[]" 200] i t
    by (simp add: dtype_name_def)
  have eq: "filter_mask ?env tickets_df ?eq = Ok [False, False, False, False]"
    using string_against_number [OF d l p cs(2) n os(2) vs(2), of "[]" 200] s
    by simp
  have ne: "filter_mask ?env tickets_df ?ne = Ok [True, True, True, True]"
    using string_against_number [OF d l p cs(3) n os(3) vs(3), of "[]" 200] s
    by simp
  from gt eq ne d l p c n i show ?thesis
    by simp
qed

subsection \<open>\<open>filter_rows\<close>: the string operators\<close>

lemma filter_mask_string:
  assumes "lookup_column d (get f ''column'') = ColumnFound c"
    and "get f ''op'' = JStr opname"
    and "opname \<in> set string_ops"
  shows "filter_mask env d f =
     (case string_filter env opname (truthy (get_default f ''case_sensitive'' (JBool False)))
             (series d c) (get f ''value'') of
        Inl e \<Rightarrow> Raised e
      | Inr m \<Rightarrow> Ok m)"
  using assms by (auto simp: filter_mask_def Let_def comparison_ops_def string_ops_def)

lemma string_filter_cells:
  "string_filter env opname cs cells v =
     (case (if opname = ''contains''
            then env_re_compile env ((if cs then id else lower) (py_str env v))
            else Inr (\<lambda>t. if opname = ''startswith''
                           then startswith t ((if cs then id else lower) (py_str env v))
                           else endswith t ((if cs then id else lower) (py_str env v)))) of
        Inl e \<Rightarrow> Inl e
      | Inr test \<Rightarrow>
          Inr (map (\<lambda>cell. case astype_string env cell of
                              None \<Rightarrow> False
                            | Some t \<Rightarrow> test ((if cs then id else lower) t)) cells))"
  by (auto simp: string_filter_def Let_def str_contains_def str_startswith_def str_endswith_def
      str_test_def str_lower_def split: sum.splits option.splits)

text \<open>
  C7. For a filter with \<open>contains\<close>, \<open>startswith\<close> or \<open>endswith\<close> on an existing column,
  the mask entry of a row is \<open>False\<close> when the cell is missing, and otherwise the operator
  applied to the cell's text and the text of the value, both lower-cased first unless
  \<open>case_sensitive\<close> is true. The filter never gives an error result, and an exception can
  only come from compiling the pattern of \<open>contains\<close>, never from a cell. In particular a
  missing cell is \<open>False\<close> in every mask the filter produces.
\<close>

theorem string_ops_null_and_case:
  assumes "lookup_column d (get f ''column'') = ColumnFound c"
    and "get f ''op'' = JStr opname"
    and "opname \<in> set string_ops"
  shows "filter_mask env d f =
     (let fold = (if truthy (get_default f ''case_sensitive'' (JBool False)) then id else lower);
          needle = fold (py_str env (get f ''value''))
      in case (if opname = ''contains'' then env_re_compile env needle
               else Inr (\<lambda>t. if opname = ''startswith'' then startswith t needle
                              else endswith t needle)) of
           Inl e \<Rightarrow> Raised e
         | Inr test \<Rightarrow>
             Ok (map (\<lambda>cell. case astype_string env cell of
                                None \<Rightarrow> False
                              | Some t \<Rightarrow> test (fold t)) (series d c)))
     \<and> (\<forall>m i. filter_mask env d f = Ok m \<longrightarrow> i < length (rows d) \<longrightarrow> series d c ! i = CNull
            \<longrightarrow> length m = length (rows d) \<and> \<not> m ! i)"
proof -
  have eq: "filter_mask env d f =
     (let fold = (if truthy (get_default f ''case_sensitive'' (JBool False)) then id else lower);
          needle = fold (py_str env (get f ''value''))
      in case (if opname = ''contains'' then env_re_compile env needle
               else Inr (\<lambda>t. if opname = ''startswith'' then startswith t needle
                              else endswith t needle)) of
           Inl e \<Rightarrow> Raised e
         | Inr test \<Rightarrow>
             Ok (map (\<lambda>cell. case astype_string env cell of
                                None \<Rightarrow> False
                              | Some t \<Rightarrow> test (fold t)) (series d c)))"
    unfolding filter_mask_string [OF assms] string_filter_cells Let_def
    by (simp split: sum.splits)
  have len: "length (series d c) = length (rows d)"
    by (simp add: series_def)
  have "\<forall>m i. filter_mask env d f = Ok m \<longrightarrow> i < length (rows d) \<longrightarrow> series d c ! i = CNull
            \<longrightarrow> length m = length (rows d) \<and> \<not> m ! i"
    unfolding eq Let_def using len
    by (auto simp: astype_string_def split: sum.splits if_splits)
  with eq show ?thesis
    by blast
qed

theorem string_ops_null_and_case_witness:
  "lookup_column tickets_df
      (get [''column'' \<mapsto> JStr ''Status'', ''op'' \<mapsto> JStr ''startswith'', ''value'' \<mapsto> JStr ''CL'']
         ''column'') = ColumnFound ''Status''
   \<and> ''startswith'' \<in> set string_ops
   \<and> filter_mask (sample_env [] [] status_df) tickets_df
        [''column'' \<mapsto> JStr ''Status'', ''op'' \<mapsto> JStr ''startswith'', ''value'' \<mapsto> JStr ''CL'']
      = Ok [False, False, True, False]
   \<and> (1::nat) < length (rows tickets_df)
   \<and> series tickets_df ''Status'' ! 1 = CNull
   \<and> \<not> [False, False, True, False] ! 1"
proof -
  let ?f = "[''column'' \<mapsto> JStr ''Status'', ''op'' \<mapsto> JStr ''startswith'', ''value'' \<mapsto> JStr ''CL'']"
  let ?env = "sample_env [] [] status_df"
  have c: "lookup_column tickets_df (get ?f ''column'') = ColumnFound ''Status''"
    by (simp add: lookup_column_def get_def get_default_def tickets_df_def)
  have o: "get ?f ''op'' = JStr ''startswith''"
    by (simp add: get_def get_default_def)
  have i: "''startswith'' \<in> set string_ops"
    by (simp add: string_ops_def)
  have s: "series tickets_df ''Status'' = [CStr ''Open'', CNull, CStr ''Closed'', CNull]"
    by (simp add: series_def col_value_def tickets_df_def)
  have low: "lower ''CL'' = ''cl''" "lower ''Open'' = ''open''" "lower ''Closed'' = ''closed''"
    by code_simp+
  have n: "(1::nat) < length (rows tickets_df)"
    by (simp add: tickets_df_def)
  note both = string_ops_null_and_case [OF c o i, of ?env]
  from both have m: "filter_mask ?env tickets_df ?f = Ok [False, False, True, False]"
    by (simp add: s low get_def get_default_def py_str_def astype_string_def startswith_def)
  from both m n s have "\<not> [False, False, True, False] ! 1"
    by simp
  with c i m n s show ?thesis
    by simp
qed

subsection \<open>\<open>groupby_aggregate\<close>: groups and column names\<close>

lemma sequence_Inr:
  "sequence xs = Inr ys \<Longrightarrow> list_all2 (\<lambda>x y. x = Inr y) xs ys"
  by (induction xs arbitrary: ys) (auto split: sum.splits)

lemma sequence_map_Inr:
  "sequence (map f ks) = Inr vs \<Longrightarrow> list_all2 (\<lambda>k v. f k = Inr v) ks vs"
  by (drule sequence_Inr) (simp add: list_all2_map1)

lemma lookup_column_found:
  "lookup_column t col = ColumnFound c \<Longrightarrow> col = JStr c \<and> c \<in> set (columns t)"
  by (auto simp: lookup_column_def split: if_splits jvalue.splits)

lemma agg_pairs_append: "agg_pairs (xs @ ys) = agg_pairs xs @ agg_pairs ys"
  by (simp add: agg_pairs_def)

lemma agg_pairs_Nil: "agg_pairs [] = []"
  by (simp add: agg_pairs_def)

lemma agg_pairs_Cons: "agg_pairs ((c, fns) # m) = map (Pair c) fns @ agg_pairs m"
  by (simp add: agg_pairs_def)

lemma agg_pairs_update:
  "set (agg_pairs (map (\<lambda>(c, fns). if c = col then (c, fns @ [fn]) else (c, fns)) m)) =
     (if col \<in> set (map fst m) then insert (col, fn) (set (agg_pairs m)) else set (agg_pairs m))"
proof (induction m)
  case Nil
  show ?case by (simp add: agg_pairs_Nil)
next
  case (Cons x m)
  obtain c fns where x: "x = (c, fns)"
    by (cases x)
  from Cons.IH show ?case
    by (auto simp: x agg_pairs_Cons)
qed

lemma agg_pairs_setdefault:
  "set (agg_pairs (setdefault_append m col fn)) = insert (col, fn) (set (agg_pairs m))"
  by (simp add: setdefault_append_def agg_pairs_update agg_pairs_append agg_pairs_Cons agg_pairs_Nil)

lemma agg_loop_pairs:
  "agg_loop d aggs m = Ok m' \<Longrightarrow>
     set (agg_pairs m') =
       set (agg_pairs m) \<union>
       {(c, fn). \<exists>a \<in> set aggs. get a ''column'' = JStr c \<and> get a ''agg'' = JStr fn}"
proof (induction aggs arbitrary: m)
  case Nil
  then show ?case by simp
next
  case (Cons a rest)
  from Cons.prems obtain c where c: "lookup_column d (get a ''column'') = ColumnFound c"
    by (auto simp: Let_def split: column_check.splits)
  from Cons.prems c obtain g where g: "get a ''agg'' = JStr g"
    by (auto simp: Let_def split: jvalue.splits)
  from Cons.prems c g have "agg_loop d rest (setdefault_append m c g) = Ok m'"
    by (auto simp: Let_def split: if_splits)
  from Cons.IH [OF this] lookup_column_found [OF c] g show ?case
    by (auto simp: agg_pairs_setdefault)
qed

lemma set_group_keys:
  "set (group_keys t gcs) = row_key t gcs ` set (rows t)"
  by (simp add: group_keys_def)

lemma distinct_group_keys: "distinct (group_keys t gcs)"
  by (simp add: group_keys_def)

lemma length_group_key: "k \<in> set (group_keys t gcs) \<Longrightarrow> length k = length gcs"
  by (auto simp: set_group_keys row_key_def)

lemma take_map2_append:
  "length ks = length vs \<Longrightarrow> \<forall>k \<in> set ks. length k = n \<Longrightarrow>
     map (take n) (map2 (@) ks vs) = ks \<and> map (drop n) (map2 (@) ks vs) = vs"
  by (induction ks vs rule: list_induct2) auto

lemma groupby_agg_result:
  assumes "groupby_agg env d gcs agg_map = Inr g"
  shows "index_names g = gcs \<and> index_keys g = group_keys d gcs
         \<and> value_columns g = agg_pairs agg_map
         \<and> list_all2
              (\<lambda>k vals.
                 sequence
                   (map (\<lambda>(c, fn).
                      env_reduce env fn (dtype_of d c)
                        (map (\<lambda>r. col_value (columns d) r c) (group_rows d gcs k)))
                     (agg_pairs agg_map)) = Inr vals)
              (group_keys d gcs) (value_rows g)"
  using assms
  by (auto simp: groupby_agg_def Let_def split: if_splits option.splits sum.splits
      dest: sequence_map_Inr)

text \<open>
  C8. After a successful \<open>groupby_aggregate\<close>, the result stored in \<open>last_result\<close> has the
  group columns first, followed by one column \<open>c_fn\<close> for each pair of a column \<open>c\<close> and a
  function \<open>fn\<close> requested in \<open>aggregations\<close>, and no other column. Its rows are the groups:
  the keys (the leading cells of the rows) are distinct and are exactly the keys of the
  rows of the table, a missing cell being a key value like any other, so the rows with a
  missing group cell are kept and form groups of their own. The aggregated cells of a
  group are computed from the rows of the table that have the group's key.
\<close>

theorem groupby_aggregate_groups_and_names:
  assumes "df st = Some d"
    and "groupby_aggregate env group_columns aggregations limit st = (Ok p, st')"
  shows "\<exists>out agg_map.
           last_result st' = Some out
         \<and> agg_loop d aggregations [] = Ok agg_map
         \<and> set (agg_pairs agg_map) =
             {(c, fn). \<exists>a \<in> set aggregations. get a ''column'' = JStr c \<and> get a ''agg'' = JStr fn}
         \<and> columns out = group_columns @ map (\<lambda>(c, fn). c @ ''_'' @ fn) (agg_pairs agg_map)
         \<and> distinct (map (take (length group_columns)) (rows out))
         \<and> set (map (take (length group_columns)) (rows out)) =
             row_key d group_columns ` set (rows d)
         \<and> (\<forall>r \<in> set (rows out).
               sequence
                 (map (\<lambda>(c, fn).
                    env_reduce env fn (dtype_of d c)
                      (map (\<lambda>x. col_value (columns d) x c)
                         (group_rows d group_columns (take (length group_columns) r))))
                   (agg_pairs agg_map))
               = Inr (drop (length group_columns) r))
         \<and> rp_row_count p = int (length (rows out))
         \<and> rp_rows p = df_to_rows out limit"
proof -
  let ?n = "length group_columns"
  let ?keys = "group_keys d group_columns"
  let ?red = "\<lambda>k. sequence
                 (map (\<lambda>(c, fn).
                    env_reduce env fn (dtype_of d c)
                      (map (\<lambda>x. col_value (columns d) x c) (group_rows d group_columns k)))
                   (agg_pairs agg_map))"
  from assms have el: "ensure_loaded st = Inr d"
    by (simp add: ensure_loaded_def)
  from assms(2) el obtain agg_map where am: "agg_loop d aggregations [] = Ok agg_map"
    by (auto simp: groupby_aggregate_def Let_def split: if_splits outcome.splits)
  from assms(2) el am obtain g where g: "groupby_agg env d group_columns agg_map = Inr g"
    by (auto simp: groupby_aggregate_def Let_def split: if_splits sum.splits)
  note gr = groupby_agg_result [OF g]
  let ?renamed = "\<lparr>columns = map (\<lambda>(c, f). c @ ''_'' @ f) (value_columns g), rows = value_rows g\<rparr>"
  from assms(2) el am g obtain out where
    ri: "reset_index (index_names g) (index_keys g) ?renamed = Inr out"
    and st': "st' = st\<lparr>last_result := Some out\<rparr>"
    and p: "p = \<lparr>rp_row_count = int (length (rows out)), rp_rows = df_to_rows out limit\<rparr>"
    by (auto simp: groupby_aggregate_def Let_def split: if_splits sum.splits)
  from ri gr have cols: "columns out = group_columns @ map (\<lambda>(c, fn). c @ ''_'' @ fn) (agg_pairs agg_map)"
    and rows: "rows out = map2 (@) ?keys (value_rows g)"
    by (auto simp: reset_index_def split: if_splits)
  from gr have all2: "list_all2
        (\<lambda>k vals. sequence
                 (map (\<lambda>(c, fn).
                    env_reduce env fn (dtype_of d c)
                      (map (\<lambda>x. col_value (columns d) x c) (group_rows d group_columns k)))
                   (agg_pairs agg_map)) = Inr vals)
        ?keys (value_rows g)"
    by simp
  then have len: "length ?keys = length (value_rows g)"
    by (rule list_all2_lengthD)
  have "\<forall>k \<in> set ?keys. length k = ?n"
    by (simp add: length_group_key)
  from take_map2_append [OF len this]
  have tk: "map (take ?n) (rows out) = ?keys" and dr: "map (drop ?n) (rows out) = value_rows g"
    unfolding rows by blast+
  have each: "\<forall>r \<in> set (rows out).
       sequence
         (map (\<lambda>(c, fn).
            env_reduce env fn (dtype_of d c)
              (map (\<lambda>x. col_value (columns d) x c)
                 (group_rows d group_columns (take ?n r))))
           (agg_pairs agg_map))
       = Inr (drop ?n r)"
  proof
    fix r
    assume "r \<in> set (rows out)"
    then obtain i where i: "i < length (rows out)" and r: "r = rows out ! i"
      by (auto simp: in_set_conv_nth)
    from i have ik: "i < length ?keys"
      using tk by (metis length_map)
    from tk i r have t: "take ?n r = ?keys ! i"
      by (metis nth_map)
    from dr i r have dd: "drop ?n r = value_rows g ! i"
      by (metis nth_map)
    from all2 ik show "sequence
         (map (\<lambda>(c, fn).
            env_reduce env fn (dtype_of d c)
              (map (\<lambda>x. col_value (columns d) x c)
                 (group_rows d group_columns (take ?n r))))
           (agg_pairs agg_map))
       = Inr (drop ?n r)"
      unfolding t dd by (simp add: list_all2_conv_all_nth)
  qed
  from agg_loop_pairs [OF am] have pairs: "set (agg_pairs agg_map) =
      {(c, fn). \<exists>a \<in> set aggregations. get a ''column'' = JStr c \<and> get a ''agg'' = JStr fn}"
    by (simp add: agg_pairs_Nil)
  have "last_result st' = Some out"
    by (simp add: st')
  moreover have "distinct (map (take ?n) (rows out))"
    by (simp add: tk distinct_group_keys)
  moreover have "set (map (take ?n) (rows out)) = row_key d group_columns ` set (rows d)"
    by (simp only: tk set_group_keys)
  moreover have "rp_row_count p = int (length (rows out))" "rp_rows p = df_to_rows out limit"
    by (simp_all add: p)
  ultimately show ?thesis
    using am pairs cols each by blast
qed

theorem groupby_aggregate_groups_and_names_witness:
  "df (sample_state (Some tickets_df)) = Some tickets_df
   \<and> groupby_aggregate (sample_env [] [] status_df) [''Status'']
        [[''column'' \<mapsto> JStr ''Hours'', ''agg'' \<mapsto> JStr ''count'']] 5 (sample_state (Some tickets_df))
      = (Ok \<lparr>rp_row_count = 3,
             rp_rows = [[(''Status'', CStr ''Closed''), (''Hours_count'', CInt 1)],
                        [(''Status'', CStr ''Open''), (''Hours_count'', CInt 1)],
                        [(''Status'', CNull), (''Hours_count'', CInt 2)]]\<rparr>,
         (sample_state (Some tickets_df))
           \<lparr>last_result := Some \<lparr>columns = [''Status'', ''Hours_count''],
                                  rows = [[CStr ''Closed'', CInt 1], [CStr ''Open'', CInt 1],
                                          [CNull, CInt 2]]\<rparr>\<rparr>)
   \<and> [CNull, CInt 5] \<in> set (rows tickets_df)
   \<and> row_key tickets_df [''Status''] [CNull, CInt 5] = [CNull]
   \<and> [CNull] \<in> set (map (take (length [''Status''])) [[CStr ''Closed'', CInt 1], [CStr ''Open'', CInt 1], [CNull, CInt 2]])"
proof -
  let ?st = "sample_state (Some tickets_df)"
  let ?out = "\<lparr>columns = [''Status'', ''Hours_count''],
               rows = [[CStr ''Closed'', CInt 1], [CStr ''Open'', CInt 1], [CNull, CInt 2]]\<rparr>"
  have d: "df ?st = Some tickets_df"
    by (simp add: sample_state_def)
  have h: "groupby_aggregate (sample_env [] [] status_df) [''Status'']
        [[''column'' \<mapsto> JStr ''Hours'', ''agg'' \<mapsto> JStr ''count'']] 5 ?st
      = (Ok \<lparr>rp_row_count = 3,
             rp_rows = [[(''Status'', CStr ''Closed''), (''Hours_count'', CInt 1)],
                        [(''Status'', CStr ''Open''), (''Hours_count'', CInt 1)],
                        [(''Status'', CNull), (''Hours_count'', CInt 2)]]\<rparr>,
         ?st\<lparr>last_result := Some ?out\<rparr>)"
    by code_simp
  have r: "[CNull, CInt 5] \<in> set (rows tickets_df)"
    by (simp add: tickets_df_def)
  have k: "row_key tickets_df [''Status''] [CNull, CInt 5] = [CNull]"
    by (simp add: row_key_def col_value_def tickets_df_def)
  from groupby_aggregate_groups_and_names [OF d h]
  have "set (map (take (length [''Status''])) (rows ?out)) = row_key tickets_df [''Status''] ` set (rows tickets_df)"
    by auto
  with r k have "[CNull] \<in> set (map (take (length [''Status''])) (rows ?out))"
    by (metis imageI)
  with d h r k show ?thesis
    by simp
qed

end
